theory Spec2Isabelle
  imports Complex_Main "HOL-Library.Multiset"
begin

section \<open>JavaScript values\<close>

text \<open>
  The values a request body field can hold. Numbers are the integers (fractional and
  non-finite doubles, and integers of 22 digits or more, which \<open>ToString\<close> prints in
  exponent notation, are outside this development); \<open>JNaN\<close> is the number NaN. Strings are
  lists of 8-bit character codes.
\<close>

datatype jsval = JUndefined | JNull | JBool bool | JNum int | JNaN | JStr string

text \<open>A JavaScript number as \<open>parseInt\<close> returns it: an integer or NaN.\<close>

datatype number = Num int | NaN

fun truthy :: "jsval \<Rightarrow> bool" where
  "truthy JUndefined = False"
| "truthy JNull = False"
| "truthy (JBool b) = b"
| "truthy (JNum n) = (n \<noteq> 0)"
| "truthy JNaN = False"
| "truthy (JStr s) = (s \<noteq> [])"

text \<open>\<open>a || b\<close>\<close>

definition js_or :: "jsval \<Rightarrow> jsval \<Rightarrow> jsval" where
  "js_or a b = (if truthy a then a else b)"

fun show_nat :: "nat \<Rightarrow> string" where
  "show_nat n =
     (if n < 10 then [char_of (48 + n)]
      else show_nat (n div 10) @ [char_of (48 + n mod 10)])"

declare show_nat.simps [simp del]

fun ToString :: "jsval \<Rightarrow> string" where
  "ToString JUndefined = ''undefined''"
| "ToString JNull = ''null''"
| "ToString (JBool b) = (if b then ''true'' else ''false'')"
| "ToString (JNum n) = (if n < 0 then CHR ''-'' # show_nat (nat (- n)) else show_nat (nat n))"
| "ToString JNaN = ''NaN''"
| "ToString (JStr s) = s"

text \<open>White space as \<open>parseInt\<close> and \<open>String.prototype.trim\<close> strip it (the 8-bit part).\<close>

definition isWhiteSpace :: "char \<Rightarrow> bool" where
  "isWhiteSpace c =
     (c = CHR 0x09 \<or> c = CHR 0x0A \<or> c = CHR 0x0B \<or> c = CHR 0x0C \<or> c = CHR 0x0D
      \<or> c = CHR 0x20 \<or> c = CHR 0xA0)"

definition trim :: "string \<Rightarrow> string" where
  "trim s = rev (dropWhile isWhiteSpace (rev (dropWhile isWhiteSpace s)))"

definition digitValue :: "char \<Rightarrow> nat option" where
  "digitValue c =
     (let n = (of_char c :: nat) in
      if 48 \<le> n \<and> n \<le> 57 then Some (n - 48)
      else if 97 \<le> n \<and> n \<le> 122 then Some (n - 87)
      else if 65 \<le> n \<and> n \<le> 90 then Some (n - 55)
      else None)"

definition isRadixDigit :: "nat \<Rightarrow> char \<Rightarrow> bool" where
  "isRadixDigit R c = (case digitValue c of Some d \<Rightarrow> d < R | None \<Rightarrow> False)"

fun digitsValue :: "nat \<Rightarrow> nat \<Rightarrow> string \<Rightarrow> nat" where
  "digitsValue R acc [] = acc"
| "digitsValue R acc (c # cs) =
     digitsValue R (acc * R + (case digitValue c of Some d \<Rightarrow> d | None \<Rightarrow> 0)) cs"

text \<open>
  \<open>parseInt(string)\<close> with no radix: leading white space is skipped, a sign is read, the
  prefix \<open>0x\<close> selects radix 16, and the longest run of digits is the value; no digit
  gives NaN.
\<close>

definition parseInt_string :: "string \<Rightarrow> number" where
  "parseInt_string inputString =
     (let S = dropWhile isWhiteSpace inputString;
          sign = (if S \<noteq> [] \<and> hd S = CHR ''-'' then - 1 else (1::int));
          S1 = (if S \<noteq> [] \<and> (hd S = CHR ''+'' \<or> hd S = CHR ''-'') then tl S else S);
          hex = (2 \<le> length S1 \<and> (take 2 S1 = ''0x'' \<or> take 2 S1 = ''0X''));
          R = (if hex then 16 else 10);
          S2 = (if hex then drop 2 S1 else S1);
          Z = takeWhile (isRadixDigit R) S2
      in if Z = [] then NaN else Num (sign * int (digitsValue R 0 Z)))"

definition parseInt :: "jsval \<Rightarrow> number" where
  "parseInt v = parseInt_string (ToString v)"

text \<open>\<open>String.prototype.includes\<close>\<close>

fun str_includes :: "string \<Rightarrow> string \<Rightarrow> bool" where
  "str_includes [] p = (p = [])"
| "str_includes (c # cs) p = (take (length p) (c # cs) = p \<or> str_includes cs p)"

section \<open>Documents\<close>

type_synonym oid = nat
type_synonym date = int

text \<open>
  The user and job models are not among the source files; the fields are the ones the
  controllers read. \<open>req.user\<close>, set by the authentication middleware, is a user too.
\<close>

record user =
  user_id :: oid
  role :: string

record job_doc =
  job_id :: oid
  status :: string
  client :: "oid option"
  hiredFreelancer :: "oid option"
  title :: string

text \<open>
  The shape adminController.js expects of \<open>review.reported\<close>.
\<close>

record reported_sub =
  rep_isReported :: bool
  rep_adminNotes :: jsval
  rep_reportedBy :: "oid option"

text \<open>
  A Review document: the paths of \<open>reviewSchema\<close> that the controllers read or write
  (\<open>rid\<close> is \<open>_id\<close>; \<open>reviewType\<close> is \<open>type\<close>; an element \<open>{user}\<close> of \<open>helpfulVotes\<close>
  is its user; \<open>reports\<close> and \<open>updatedAt\<close> are never read and left out).
\<close>

record review =
  rid :: oid
  job :: oid
  reviewer :: oid
  recipient :: oid
  rating :: int
  comment :: string
  isPublic :: "bool option"
  reviewType :: string
  communication :: "int option"
  qualityOfWork :: "int option"
  valueForMoney :: "int option"
  expertise :: "int option"
  professionalism :: "int option"
  helpfulVotes :: "oid list"
  isReported :: bool
  reportReason :: "string option"
  reportedBy :: "oid option"
  reportedAt :: "date option"
  isHidden :: bool
  moderationReason :: "string option"
  createdAt :: date

text \<open>
  \<open>review.reported\<close>, \<open>review.from\<close> and \<open>review.to\<close>, which \<open>handleReportedReview\<close>
  reads. The schema of models/Review.js has no such paths, and a Mongoose document has
  accessors for the paths of its schema only (whatever the stored document holds): on
  every Review document the three are undefined.
\<close>

definition review_reported :: "review \<Rightarrow> reported_sub option" where
  "review_reported r = None"

definition review_from :: "review \<Rightarrow> oid option" where
  "review_from r = None"

definition review_to :: "review \<Rightarrow> oid option" where
  "review_to r = None"

record notification =
  n_recipient :: "oid option"
  n_type :: string
  n_title :: string
  n_message :: string
  n_data :: "(string \<times> oid) list"

text \<open>
  The collections the review handlers write, and the ObjectId the next insert gets.
\<close>

record db =
  reviews :: "review list"
  notifications :: "notification list"
  next_oid :: oid

text \<open>
  What the handlers only read: the jobs and users, and the two ways the collaborators fail
  (\<open>Notification.create\<close> rejecting a notification, the aggregation pipeline throwing).
\<close>

record env =
  jobs :: "job_doc list"
  users :: "user list"
  notif_fails :: "notification \<Rightarrow> bool"
  aggregate_fails :: bool

datatype exn =
    ValidationError
  | MongoServerError nat "string list option" string
  | TypeError
  | NotificationError
  | QueryError

section \<open>Rating statistics\<close>

text \<open>
  One group of the \<open>$group\<close> stage of \<open>getReviewStats\<close>. An average is an exact
  rational here (MongoDB and JavaScript compute in doubles); \<open>$avg\<close> is null when no
  document of the group has a number at the path.
\<close>

record stats_group =
  g_averageRating :: "rat option"
  g_totalReviews :: nat
  g_avgCommunication :: "rat option"
  g_avgQualityOfWork :: "rat option"
  g_avgValueForMoney :: "rat option"
  g_avgExpertise :: "rat option"
  g_avgProfessionalism :: "rat option"
  g_fiveStarCount :: nat
  g_fourStarCount :: nat
  g_threeStarCount :: nat
  g_twoStarCount :: nat
  g_oneStarCount :: nat

record category_averages =
  ca_communication :: rat
  ca_qualityOfWork :: rat
  ca_valueForMoney :: rat
  ca_expertise :: rat
  ca_professionalism :: rat

record rating_distribution =
  fiveStar :: nat
  fourStar :: nat
  threeStar :: nat
  twoStar :: nat
  oneStar :: nat

record review_stats =
  averageRating :: rat
  totalReviews :: nat
  categoryAverages :: category_averages
  ratingDistribution :: rating_distribution

text \<open>The data of the response of \<open>getUserReviews\<close>.\<close>

record user_reviews =
  ur_reviews :: "review list"
  ur_stats :: review_stats
  ur_page :: int
  ur_limit :: int
  ur_totalReviews :: nat
  ur_totalPages :: int

datatype payload =
    NoData
  | ReviewData review
  | HelpfulCount nat
  | UserReviews user_reviews

text \<open>
  \<open>errorResponse(res, status, message)\<close> and \<open>successResponse(res, status, message, data)\<close>
  of utils/apiResponse.js (not among the source files). \<open>ServerError e\<close> is
  \<open>errorResponse(res, 500, e.message)\<close> in a handler's outer \<open>catch\<close>.
  adminController.js calls \<open>errorResponse(res, message, status)\<close> and
  \<open>successResponse(res, {message})\<close>: the first is \<open>ErrorResponse status message\<close> here,
  the second \<open>SuccessMessage message\<close>.
\<close>

datatype response =
    ErrorResponse nat string
  | ServerError exn
  | SuccessResponse nat string payload
  | SuccessMessage string

section \<open>Storage\<close>

definition Job_findById :: "env \<Rightarrow> oid \<Rightarrow> job_doc option" where
  "Job_findById e i = find (\<lambda>j. job_id j = i) (jobs e)"

definition User_findById :: "env \<Rightarrow> oid \<Rightarrow> user option" where
  "User_findById e i = find (\<lambda>u. user_id u = i) (users e)"

text \<open>\<open>populate\<close> of a user reference: null when the reference is unset or dangling.\<close>

definition populate :: "env \<Rightarrow> oid option \<Rightarrow> user option" where
  "populate e r = (case r of None \<Rightarrow> None | Some i \<Rightarrow> User_findById e i)"

definition Review_findById :: "db \<Rightarrow> oid \<Rightarrow> review option" where
  "Review_findById d i = find (\<lambda>r. rid r = i) (reviews d)"

text \<open>\<open>Review.findOne({job, reviewer, recipient})\<close>\<close>

definition same_triple :: "oid \<Rightarrow> oid \<Rightarrow> oid \<Rightarrow> review \<Rightarrow> bool" where
  "same_triple j rv rc r = (job r = j \<and> reviewer r = rv \<and> recipient r = rc)"

definition Review_findOne :: "db \<Rightarrow> oid \<Rightarrow> oid \<Rightarrow> oid \<Rightarrow> review option" where
  "Review_findOne d j rv rc = find (same_triple j rv rc) (reviews d)"

text \<open>Mongoose's casts of a value assigned to a String and to a Boolean path.\<close>

definition castString :: "jsval \<Rightarrow> string option" where
  "castString v = (if v = JUndefined \<or> v = JNull then None else Some (ToString v))"

definition castBoolean :: "jsval \<Rightarrow> exn + bool option" where
  "castBoolean v =
     (if v = JBool True \<or> v = JStr ''true'' \<or> v = JNum 1 \<or> v = JStr ''1'' \<or> v = JStr ''yes''
        then Inr (Some True)
      else if v = JBool False \<or> v = JStr ''false'' \<or> v = JNum 0 \<or> v = JStr ''0''
          \<or> v = JStr ''no''
        then Inr (Some False)
      else if v = JUndefined \<or> v = JNull then Inr None
      else Inl ValidationError)"

text \<open>The validators of the schema: \<open>min: 1, max: 5\<close> on a score, when it is set.\<close>

definition score_ok :: "int \<Rightarrow> bool" where
  "score_ok n = (1 \<le> n \<and> n \<le> 5)"

definition opt_score_ok :: "int option \<Rightarrow> bool" where
  "opt_score_ok s = (case s of None \<Rightarrow> True | Some n \<Rightarrow> score_ok n)"

definition type_ok :: "string \<Rightarrow> bool" where
  "type_ok t = (t = ''client-to-freelancer'' \<or> t = ''freelancer-to-client'')"

text \<open>
  Validation of a document on \<open>save\<close>: the required paths and the scores. (Mongoose runs
  the validators of the required and of the modified paths.)
\<close>

definition Review_validate :: "review \<Rightarrow> bool" where
  "Review_validate r =
     (score_ok (rating r) \<and> 10 \<le> length (comment r) \<and> type_ok (reviewType r)
      \<and> opt_score_ok (communication r) \<and> opt_score_ok (qualityOfWork r)
      \<and> opt_score_ok (valueForMoney r) \<and> opt_score_ok (expertise r)
      \<and> opt_score_ok (professionalism r))"

text \<open>The object handed to \<open>Review.create\<close> in \<open>createReview\<close>, before casting.\<close>

record new_review =
  nr_job :: oid
  nr_reviewer :: oid
  nr_recipient :: oid
  nr_rating :: number
  nr_comment :: jsval
  nr_communication :: number
  nr_qualityOfWork :: number
  nr_valueForMoney :: number
  nr_expertise :: number
  nr_professionalism :: number
  nr_type :: string
  nr_isPublic :: bool

text \<open>
  Casting to the schema: NaN is no Number (a cast error), an undefined or null comment fails
  \<open>required\<close>, the comment is trimmed (\<open>trim: true\<close>), and the defaults are filled in.
\<close>

definition cast_review :: "oid \<Rightarrow> date \<Rightarrow> new_review \<Rightarrow> review option" where
  "cast_review i now nr =
     (case (nr_rating nr, castString (nr_comment nr), nr_communication nr, nr_qualityOfWork nr,
            nr_valueForMoney nr, nr_expertise nr, nr_professionalism nr) of
        (Num rt, Some c, Num co, Num qw, Num vm, Num ex, Num pr) \<Rightarrow>
          Some \<lparr> rid = i, job = nr_job nr, reviewer = nr_reviewer nr,
                 recipient = nr_recipient nr, rating = rt, comment = trim c,
                 isPublic = Some (nr_isPublic nr), reviewType = nr_type nr,
                 communication = Some co, qualityOfWork = Some qw, valueForMoney = Some vm,
                 expertise = Some ex, professionalism = Some pr, helpfulVotes = [],
                 isReported = False, reportReason = None, reportedBy = None,
                 reportedAt = None, isHidden = False, moderationReason = None,
                 createdAt = now \<rparr>
      | _ \<Rightarrow> None)"

definition duplicate_key :: exn where
  "duplicate_key =
     MongoServerError 11000 (Some [''job'', ''reviewer'', ''recipient''])
       ''E11000 duplicate key error index: job_1_reviewer_1_recipient_1''"

text \<open>
  \<open>Review.create\<close>: the document is cast and validated, then inserted; the insert is where
  the unique index on (job, reviewer, recipient) of models/Review.js is enforced.
\<close>

definition Review_create :: "db \<Rightarrow> date \<Rightarrow> new_review \<Rightarrow> exn + (review \<times> db)" where
  "Review_create d now nr =
     (case cast_review (next_oid d) now nr of
        None \<Rightarrow> Inl ValidationError
      | Some r \<Rightarrow>
          if \<not> Review_validate r then Inl ValidationError
          else if list_ex (same_triple (job r) (reviewer r) (recipient r)) (reviews d)
            then Inl duplicate_key
          else Inr (r, d\<lparr>reviews := reviews d @ [r], next_oid := Suc (next_oid d)\<rparr>))"

definition Notification_create :: "env \<Rightarrow> db \<Rightarrow> notification \<Rightarrow> exn + db" where
  "Notification_create e d n =
     (if notif_fails e n then Inl NotificationError
      else Inr (d\<lparr>notifications := notifications d @ [n]\<rparr>))"

section \<open>createReview\<close>

text \<open>The fields \<open>createReview\<close> reads from \<open>req.body\<close>; the two ids are ObjectIds.\<close>

record create_body =
  b_jobId :: oid
  b_recipient :: oid
  b_rating :: jsval
  b_comment :: jsval
  b_communication :: jsval
  b_qualityOfWork :: jsval
  b_valueForMoney :: jsval
  b_expertise :: jsval
  b_professionalism :: jsval
  b_isPublic :: jsval

text \<open>
  Lines 34 to 80 of reviewController.js: the checks up to and including the lookup of an
  existing review. \<open>Inl\<close> is the early return, \<open>Inr\<close> the job and the review type.
\<close>

definition createReview_checks ::
  "env \<Rightarrow> db \<Rightarrow> user \<Rightarrow> create_body \<Rightarrow> response + (job_doc \<times> string)" where
  "createReview_checks e d u b =
     (case Job_findById e (b_jobId b) of
        None \<Rightarrow> Inl (ErrorResponse 404 ''Job not found'')
      | Some j \<Rightarrow>
         (case User_findById e (b_recipient b) of
            None \<Rightarrow> Inl (ErrorResponse 404 ''Recipient user not found'')
          | Some recipientUser \<Rightarrow>
             if status j \<noteq> ''completed''
               then Inl (ErrorResponse 400 ''You can only review completed jobs'')
             else if populate e (client j) = None \<or> populate e (hiredFreelancer j) = None
               then Inl (ErrorResponse 400
                 ''Job must have both a client and hired freelancer to submit reviews'')
             else
               let isClient = (role u = ''client'');
                   isFreelancer = (role u = ''freelancer'')
               in if \<not> isClient \<and> \<not> isFreelancer
                    then Inl (ErrorResponse 403
                      ''You must be either the client or the hired freelancer to submit a review'')
                  else
                    let rt = (if isClient then ''client-to-freelancer''
                              else ''freelancer-to-client'')
                    in (case Review_findOne d (b_jobId b) (user_id u) (b_recipient b) of
                          Some existingReview \<Rightarrow> Inl (ErrorResponse 400
                            ''You have already submitted a review for this job'')
                        | None \<Rightarrow> Inr (j, rt))))"

definition new_review_of :: "user \<Rightarrow> create_body \<Rightarrow> string \<Rightarrow> new_review" where
  "new_review_of u b rt =
     \<lparr> nr_job = b_jobId b, nr_reviewer = user_id u, nr_recipient = b_recipient b,
       nr_rating = parseInt (b_rating b), nr_comment = b_comment b,
       nr_communication = parseInt (js_or (b_communication b) (b_rating b)),
       nr_qualityOfWork = parseInt (js_or (b_qualityOfWork b) (b_rating b)),
       nr_valueForMoney = parseInt (js_or (b_valueForMoney b) (b_rating b)),
       nr_expertise = parseInt (js_or (b_expertise b) (b_rating b)),
       nr_professionalism = parseInt (js_or (b_professionalism b) (b_rating b)),
       nr_type = rt, nr_isPublic = (b_isPublic b \<noteq> JBool False) \<rparr>"

text \<open>The \<open>catch\<close> around \<open>Review.create\<close> (lines 99 to 121); \<open>None\<close> re-throws.\<close>

fun createReview_catch :: "exn \<Rightarrow> response option" where
  "createReview_catch (MongoServerError code keyPattern message) =
     (if code = 11000 then
        (if (case keyPattern of None \<Rightarrow> False
             | Some ks \<Rightarrow> ''job'' \<in> set ks \<or> ''reviewer'' \<in> set ks \<or> ''recipient'' \<in> set ks)
           then Some (ErrorResponse 400 ''You have already submitted a review for this job'')
         else if str_includes message ''from_1_to_1_project_1''
             \<or> str_includes message ''from: null, to: null, project: null''
           then Some (ErrorResponse 500
             ''Database configuration issue. Please contact support. (Legacy index conflict)'')
         else Some (ErrorResponse 400 ''Duplicate review detected''))
      else None)"
| "createReview_catch ValidationError = None"
| "createReview_catch TypeError = None"
| "createReview_catch NotificationError = None"
| "createReview_catch QueryError = None"

definition new_review_notification ::
  "user \<Rightarrow> create_body \<Rightarrow> job_doc \<Rightarrow> review \<Rightarrow> notification" where
  "new_review_notification u b j r =
     \<lparr> n_recipient = Some (b_recipient b), n_type = ''new-review'',
       n_title = ''New Review Received'',
       n_message = ''You'' @ [CHR 0x27] @ ''ve received a '' @ ToString (b_rating b)
         @ ''-star review for the job '' @ [CHR 0x22] @ title j @ [CHR 0x22],
       n_data = [(''job'', job_id j), (''reviewer'', user_id u), (''review'', rid r)] \<rparr>"

text \<open>
  Lines 82 to 147: the insert, the translation of a duplicate-key error, the notification
  and the outer \<open>catch\<close>.
\<close>

definition createReview_insert ::
  "env \<Rightarrow> db \<Rightarrow> date \<Rightarrow> user \<Rightarrow> create_body \<Rightarrow> job_doc \<Rightarrow> string \<Rightarrow> response \<times> db" where
  "createReview_insert e d now u b j rt =
     (case Review_create d now (new_review_of u b rt) of
        Inl err \<Rightarrow>
          (case createReview_catch err of
             Some resp \<Rightarrow> (resp, d)
           | None \<Rightarrow> (ServerError err, d))
      | Inr (r, d1) \<Rightarrow>
          (case Notification_create e d1 (new_review_notification u b j r) of
             Inl err \<Rightarrow> (ServerError err, d1)
           | Inr d2 \<Rightarrow>
               (SuccessResponse 201 ''Review submitted successfully'' (ReviewData r), d2)))"

text \<open>
  The handler. Between the lookup of an existing review and the insert the handler awaits,
  so another request may commit in between: \<open>createReview_race\<close> runs the checks on the
  store \<open>d0\<close> and the insert on the later store \<open>d\<close>; \<open>createReview\<close> is the run with no
  request in between.
\<close>

definition createReview_race ::
  "env \<Rightarrow> db \<Rightarrow> db \<Rightarrow> date \<Rightarrow> user \<Rightarrow> create_body \<Rightarrow> response \<times> db" where
  "createReview_race e d0 d now u b =
     (case createReview_checks e d0 u b of
        Inl resp \<Rightarrow> (resp, d)
      | Inr (j, rt) \<Rightarrow> createReview_insert e d now u b j rt)"

definition createReview :: "env \<Rightarrow> db \<Rightarrow> date \<Rightarrow> user \<Rightarrow> create_body \<Rightarrow> response \<times> db" where
  "createReview e d now u b = createReview_race e d d now u b"

section \<open>Saving and deleting a review\<close>

fun replace_first :: "review \<Rightarrow> review list \<Rightarrow> review list" where
  "replace_first r [] = []"
| "replace_first r (x # xs) = (if rid x = rid r then r # xs else x # replace_first r xs)"

fun delete_first :: "oid \<Rightarrow> review list \<Rightarrow> review list" where
  "delete_first i [] = []"
| "delete_first i (x # xs) = (if rid x = i then xs else x # delete_first i xs)"

text \<open>\<open>review.save()\<close>: the document is validated, then written over the stored one.\<close>

definition Review_save :: "db \<Rightarrow> review \<Rightarrow> exn + db" where
  "Review_save d r =
     (if Review_validate r then Inr (d\<lparr>reviews := replace_first r (reviews d)\<rparr>)
      else Inl ValidationError)"

text \<open>\<open>Review.findByIdAndDelete(id)\<close>, \<open>review.remove()\<close>\<close>

definition Review_delete :: "db \<Rightarrow> oid \<Rightarrow> db" where
  "Review_delete d i = d\<lparr>reviews := delete_first i (reviews d)\<rparr>"

text \<open>Notifications created one after the other; the first failure throws.\<close>

fun notify_each :: "env \<Rightarrow> db \<Rightarrow> notification list \<Rightarrow> exn option \<times> db" where
  "notify_each e d [] = (None, d)"
| "notify_each e d (n # ns) =
     (case Notification_create e d n of
        Inl err \<Rightarrow> (Some err, d)
      | Inr d1 \<Rightarrow> notify_each e d1 ns)"

section \<open>getReviewStats\<close>

text \<open>\<open>$avg\<close> over the numbers present.\<close>

definition avg :: "int list \<Rightarrow> rat option" where
  "avg xs = (if xs = [] then None else Some (of_int (sum_list xs) / of_int (int (length xs))))"

definition star_count :: "int \<Rightarrow> review list \<Rightarrow> nat" where
  "star_count n rs = length (filter (\<lambda>r. rating r = n) rs)"

text \<open>The pipeline: \<open>$match\<close> on the recipient, one \<open>$group\<close>; no document, no group.\<close>

definition aggregate_stats :: "db \<Rightarrow> oid \<Rightarrow> stats_group list" where
  "aggregate_stats d userId =
     (let rs = filter (\<lambda>r. recipient r = userId) (reviews d) in
      if rs = [] then []
      else [\<lparr> g_averageRating = avg (map rating rs),
              g_totalReviews = length rs,
              g_avgCommunication = avg (List.map_filter communication rs),
              g_avgQualityOfWork = avg (List.map_filter qualityOfWork rs),
              g_avgValueForMoney = avg (List.map_filter valueForMoney rs),
              g_avgExpertise = avg (List.map_filter expertise rs),
              g_avgProfessionalism = avg (List.map_filter professionalism rs),
              g_fiveStarCount = star_count 5 rs,
              g_fourStarCount = star_count 4 rs,
              g_threeStarCount = star_count 3 rs,
              g_twoStarCount = star_count 2 rs,
              g_oneStarCount = star_count 1 rs \<rparr>])"

text \<open>\<open>Math.round\<close>: the nearest integer, a half going up.\<close>

definition Math_round :: "rat \<Rightarrow> int" where
  "Math_round x = \<lfloor>x + 1 / 2\<rfloor>"

text \<open>\<open>x || 0\<close> on an average, and the number a null average is in a product.\<close>

definition or_zero :: "rat option \<Rightarrow> rat" where
  "or_zero a = (case a of None \<Rightarrow> 0 | Some x \<Rightarrow> if x = 0 then 0 else x)"

definition to_number :: "rat option \<Rightarrow> rat" where
  "to_number a = (case a of None \<Rightarrow> 0 | Some x \<Rightarrow> x)"

definition zero_stats :: review_stats where
  "zero_stats =
     \<lparr> averageRating = 0, totalReviews = 0,
       categoryAverages = \<lparr> ca_communication = 0, ca_qualityOfWork = 0, ca_valueForMoney = 0,
         ca_expertise = 0, ca_professionalism = 0 \<rparr>,
       ratingDistribution = \<lparr> fiveStar = 0, fourStar = 0, threeStar = 0, twoStar = 0,
         oneStar = 0 \<rparr> \<rparr>"

definition getReviewStats :: "env \<Rightarrow> db \<Rightarrow> oid \<Rightarrow> review_stats" where
  "getReviewStats e d userId =
     (if aggregate_fails e then zero_stats
      else
        (case aggregate_stats d userId of
           [] \<Rightarrow> zero_stats
         | g # _ \<Rightarrow>
             \<lparr> averageRating = of_int (Math_round (to_number (g_averageRating g) * 10)) / 10,
               totalReviews = g_totalReviews g,
               categoryAverages =
                 \<lparr> ca_communication =
                     of_int (Math_round (or_zero (g_avgCommunication g) * 10)) / 10,
                   ca_qualityOfWork =
                     of_int (Math_round (or_zero (g_avgQualityOfWork g) * 10)) / 10,
                   ca_valueForMoney =
                     of_int (Math_round (or_zero (g_avgValueForMoney g) * 10)) / 10,
                   ca_expertise =
                     of_int (Math_round (or_zero (g_avgExpertise g) * 10)) / 10,
                   ca_professionalism =
                     of_int (Math_round (or_zero (g_avgProfessionalism g) * 10)) / 10 \<rparr>,
               ratingDistribution =
                 \<lparr> fiveStar = g_fiveStarCount g, fourStar = g_fourStarCount g,
                   threeStar = g_threeStarCount g, twoStar = g_twoStarCount g,
                   oneStar = g_oneStarCount g \<rparr> \<rparr>))"

section \<open>getUserReviews\<close>





section \<open>updateReview and deleteReview\<close>

record update_body =
  ub_rating :: jsval
  ub_content :: jsval
  ub_communication :: jsval
  ub_quality :: jsval
  ub_expertise :: jsval
  ub_deadlineAdherence :: jsval
  ub_overallExperience :: jsval
  ub_isPublic :: jsval

text \<open>
  \<open>if (rating) review.rating = parseInt(rating)\<close>: NaN is no Number, which \<open>save\<close>
  reports as a validation error.
\<close>

definition assign_rating :: "jsval \<Rightarrow> review \<Rightarrow> exn + review" where
  "assign_rating v r =
     (if truthy v then
        (case parseInt v of NaN \<Rightarrow> Inl ValidationError | Num n \<Rightarrow> Inr (r\<lparr>rating := n\<rparr>))
      else Inr r)"

text \<open>\<open>if (isPublic !== undefined) review.isPublic = isPublic\<close>\<close>

definition assign_isPublic :: "jsval \<Rightarrow> review \<Rightarrow> exn + review" where
  "assign_isPublic v r =
     (if v \<noteq> JUndefined then
        (case castBoolean v of Inl err \<Rightarrow> Inl err | Inr p \<Rightarrow> Inr (r\<lparr>isPublic := p\<rparr>))
      else Inr r)"

definition review_updated_notification :: "user \<Rightarrow> review \<Rightarrow> notification" where
  "review_updated_notification u r =
     \<lparr> n_recipient = Some (recipient r), n_type = ''new_review'', n_title = ''Review Updated'',
       n_message = ''A review you received has been updated'',
       n_data = [(''job'', job r), (''sender'', user_id u), (''review'', rid r)] \<rparr>"

text \<open>
  \<open>thirtyDaysAgo\<close> is the date of lines 282 and 283. \<open>review.content\<close> is no path of
  the schema: assigning it stores nothing. \<open>review.categories\<close> is undefined, so each of
  the five assignments through it throws a TypeError when its field is truthy.
\<close>

definition updateReview ::
  "env \<Rightarrow> db \<Rightarrow> date \<Rightarrow> user \<Rightarrow> oid \<Rightarrow> update_body \<Rightarrow> response \<times> db" where
  "updateReview e d thirtyDaysAgo u reviewId b =
     (case Review_findById d reviewId of
        None \<Rightarrow> (ErrorResponse 404 ''Review not found'', d)
      | Some r \<Rightarrow>
          if reviewer r \<noteq> user_id u
            then (ErrorResponse 403 ''You can only update your own reviews'', d)
          else if createdAt r < thirtyDaysAgo
            then (ErrorResponse 400 ''Reviews can only be updated within 30 days of creation'', d)
          else if truthy (ub_communication b) \<or> truthy (ub_quality b) \<or> truthy (ub_expertise b)
              \<or> truthy (ub_deadlineAdherence b) \<or> truthy (ub_overallExperience b)
            then (ServerError TypeError, d)
          else
            (case assign_rating (ub_rating b) r of
               Inl err \<Rightarrow> (ServerError err, d)
             | Inr r1 \<Rightarrow>
                (case assign_isPublic (ub_isPublic b) r1 of
                   Inl err \<Rightarrow> (ServerError err, d)
                 | Inr r2 \<Rightarrow>
                    (case Review_save d r2 of
                       Inl err \<Rightarrow> (ServerError err, d)
                     | Inr d1 \<Rightarrow>
                        (case Notification_create e d1 (review_updated_notification u r2) of
                           Inl err \<Rightarrow> (ServerError err, d1)
                         | Inr d2 \<Rightarrow>
                             (SuccessResponse 200 ''Review updated successfully''
                                (ReviewData r2), d2))))))"

definition deleteReview :: "env \<Rightarrow> db \<Rightarrow> user \<Rightarrow> oid \<Rightarrow> response \<times> db" where
  "deleteReview e d u reviewId =
     (case Review_findById d reviewId of
        None \<Rightarrow> (ErrorResponse 404 ''Review not found'', d)
      | Some r \<Rightarrow>
          if reviewer r \<noteq> user_id u \<and> role u \<noteq> ''admin''
            then (ErrorResponse 403 ''You can only delete your own reviews'', d)
          else (SuccessResponse 200 ''Review deleted successfully'' NoData,
                Review_delete d reviewId))"

section \<open>reportReview\<close>

definition review_reported_notification :: "user \<Rightarrow> jsval \<Rightarrow> review \<Rightarrow> user \<Rightarrow> notification" where
  "review_reported_notification u reason r admin =
     \<lparr> n_recipient = Some (user_id admin), n_type = ''system_notification'',
       n_title = ''Review Reported'',
       n_message = ''A review has been reported for violation. Reason: '' @ ToString reason,
       n_data = [(''review'', rid r), (''sender'', user_id u)] \<rparr>"

definition reportReview ::
  "env \<Rightarrow> db \<Rightarrow> date \<Rightarrow> user \<Rightarrow> oid \<Rightarrow> jsval \<Rightarrow> response \<times> db" where
  "reportReview e d now u reviewId reason =
     (if \<not> truthy reason then (ErrorResponse 400 ''Report reason is required'', d)
      else
        (case Review_findById d reviewId of
           None \<Rightarrow> (ErrorResponse 404 ''Review not found'', d)
         | Some r \<Rightarrow>
             if recipient r \<noteq> user_id u
               then (ErrorResponse 403 ''You can only report reviews about yourself'', d)
             else
               let r1 = r\<lparr> isReported := True,
                          reportReason := map_option trim (castString reason),
                          reportedBy := Some (user_id u),
                          reportedAt := Some now \<rparr>
               in (case Review_save d r1 of
                     Inl err \<Rightarrow> (ServerError err, d)
                   | Inr d1 \<Rightarrow>
                       let adminUsers = filter (\<lambda>a. role a = ''admin'') (users e)
                       in (case notify_each e d1
                                  (map (review_reported_notification u reason r1) adminUsers) of
                             (Some err, d2) \<Rightarrow> (ServerError err, d2)
                           | (None, d2) \<Rightarrow>
                               (SuccessResponse 200
                                  ''Review reported successfully. Our team will review it shortly.''
                                  NoData, d2)))))"

section \<open>markReviewAsHelpful\<close>

definition markReviewAsHelpful :: "env \<Rightarrow> db \<Rightarrow> user \<Rightarrow> oid \<Rightarrow> response \<times> db" where
  "markReviewAsHelpful e d u reviewId =
     (case Review_findById d reviewId of
        None \<Rightarrow> (ErrorResponse 404 ''Review not found'', d)
      | Some r \<Rightarrow>
          let alreadyMarked = list_ex (\<lambda>item. item = user_id u) (helpfulVotes r)
          in if alreadyMarked then
               let r1 = r\<lparr>helpfulVotes := filter (\<lambda>item. item \<noteq> user_id u) (helpfulVotes r)\<rparr>
               in (case Review_save d r1 of
                     Inl err \<Rightarrow> (ServerError err, d)
                   | Inr d1 \<Rightarrow>
                       (SuccessResponse 200 ''Removed helpful mark from review''
                          (HelpfulCount (length (helpfulVotes r1))), d1))
             else
               let r1 = r\<lparr>helpfulVotes := helpfulVotes r @ [user_id u]\<rparr>
               in (case Review_save d r1 of
                     Inl err \<Rightarrow> (ServerError err, d)
                   | Inr d1 \<Rightarrow>
                       (SuccessResponse 200 ''Marked review as helpful''
                          (HelpfulCount (length (helpfulVotes r1))), d1)))"

section \<open>handleReportedReview\<close>

definition admin_notification :: "user \<Rightarrow> oid option \<Rightarrow> string \<Rightarrow> string \<Rightarrow> notification" where
  "admin_notification u rcp ttl msg =
     \<lparr> n_recipient = rcp, n_type = ''system-notification'', n_title = ttl, n_message = msg,
       n_data = [(''sender'', user_id u)] \<rparr>"

text \<open>
  Line 793: \<open>review.reported && review.reported.isReported\<close>, the report the handler
  goes by; and \<open>review.reported.reportedBy\<close>.
\<close>

definition report_active :: "review \<Rightarrow> bool" where
  "report_active r =
     (case review_reported r of None \<Rightarrow> False | Some rep \<Rightarrow> rep_isReported rep)"

definition reporter_of :: "review \<Rightarrow> oid option" where
  "reporter_of r =
     (case review_reported r of None \<Rightarrow> None | Some rep \<Rightarrow> rep_reportedBy rep)"

text \<open>
  The assignments to \<open>review.reported.isReported\<close> and \<open>review.reported.adminNotes\<close>
  of lines 825, 826, 853 and 854 set no path of the schema: \<open>save\<close> stores the review as
  it was, but for \<open>isPublic\<close> in the last branch.
\<close>

definition handleReportedReview ::
  "env \<Rightarrow> db \<Rightarrow> user \<Rightarrow> oid \<Rightarrow> jsval \<Rightarrow> jsval \<Rightarrow> response \<times> db" where
  "handleReportedReview e d u reviewId action adminNotes =
     (if action \<noteq> JStr ''approve'' \<and> action \<noteq> JStr ''reject'' \<and> action \<noteq> JStr ''delete''
        then (ErrorResponse 400 ''Invalid action. Must be approve, reject, or delete.'', d)
      else
        (case Review_findById d reviewId of
           None \<Rightarrow> (ErrorResponse 404 ''Review not found'', d)
         | Some r \<Rightarrow>
             if \<not> report_active r
               then (ErrorResponse 400 ''This review has not been reported'', d)
             else if action = JStr ''delete'' then
               let d1 = Review_delete d (rid r);
                   msg = ''A review you were involved with has been removed by an administrator for violating our guidelines.''
               in (case notify_each e d1
                          [admin_notification u (review_from r) ''Review Removed'' msg,
                           admin_notification u (review_to r) ''Review Removed'' msg] of
                     (Some err, d2) \<Rightarrow> (ServerError err, d2)
                   | (None, d2) \<Rightarrow> (SuccessMessage ''Reported review has been deleted'', d2))
             else if action = JStr ''approve'' then
               (case Review_save d r of
                  Inl err \<Rightarrow> (ServerError err, d)
                | Inr d1 \<Rightarrow>
                   (case notify_each e d1
                           [admin_notification u (review_from r) ''Review Report Resolved''
                              ''A report against your review has been reviewed and the review has been maintained.'',
                            admin_notification u (reporter_of r) ''Review Report Resolved''
                              ''Thank you for your report. After careful review, we have determined that the review does not violate our guidelines.''] of
                      (Some err, d2) \<Rightarrow> (ServerError err, d2)
                    | (None, d2) \<Rightarrow>
                        (SuccessMessage ''Review report has been approved (rejected)'', d2)))
             else
               let r1 = r\<lparr>isPublic := Some False\<rparr>
               in (case Review_save d r1 of
                     Inl err \<Rightarrow> (ServerError err, d)
                   | Inr d1 \<Rightarrow>
                      (case notify_each e d1
                              [admin_notification u (review_from r1) ''Review Hidden''
                                 ''Your review has been hidden as it was found to violate our community guidelines.'',
                               admin_notification u (reporter_of r1) ''Review Report Resolved''
                                 ''Thank you for your report. After careful review, we have hidden the review as it violated our guidelines.''] of
                         (Some err, d2) \<Rightarrow> (ServerError err, d2)
                       | (None, d2) \<Rightarrow>
                           (SuccessMessage ''Review has been hidden and report resolved'', d2)))))"

section \<open>The operations that write reviews\<close>

datatype operation =
    CreateReview date user create_body
  | UpdateReview date user oid update_body
  | DeleteReview user oid
  | ReportReview date user oid jsval
  | MarkReviewAsHelpful user oid
  | HandleReportedReview user oid jsval jsval

fun perform :: "env \<Rightarrow> db \<Rightarrow> operation \<Rightarrow> response \<times> db" where
  "perform e d (CreateReview now u b) = createReview e d now u b"
| "perform e d (UpdateReview thirtyDaysAgo u i b) = updateReview e d thirtyDaysAgo u i b"
| "perform e d (DeleteReview u i) = deleteReview e d u i"
| "perform e d (ReportReview now u i reason) = reportReview e d now u i reason"
| "perform e d (MarkReviewAsHelpful u i) = markReviewAsHelpful e d u i"
| "perform e d (HandleReportedReview u i action adminNotes) =
     handleReportedReview e d u i action adminNotes"

section \<open>The unique index and the examples\<close>

text \<open>The unique index of models/Review.js: no two stored reviews share their triple.\<close>

definition unique_index :: "db \<Rightarrow> bool" where
  "unique_index d = distinct (map (\<lambda>r. (job r, reviewer r, recipient r)) (reviews d))"

text \<open>
  A completed job of client 10 with freelancer 20, a job in progress, a completed job with
  no freelancer, and the review of the spec's scenario: the client rates the freelancer 5
  and leaves every category out.
\<close>

definition ex_client :: user where
  "ex_client = \<lparr> user_id = 10, role = ''client'' \<rparr>"

definition ex_freelancer :: user where
  "ex_freelancer = \<lparr> user_id = 20, role = ''freelancer'' \<rparr>"

definition ex_admin :: user where
  "ex_admin = \<lparr> user_id = 30, role = ''admin'' \<rparr>"

definition ex_job :: job_doc where
  "ex_job = \<lparr> job_id = 1, status = ''completed'', client = Some 10,
     hiredFreelancer = Some 20, title = ''Logo'' \<rparr>"

definition ex_env :: env where
  "ex_env =
     \<lparr> jobs = [ex_job,
         \<lparr> job_id = 2, status = ''in-progress'', client = Some 10, hiredFreelancer = Some 20,
           title = ''Site'' \<rparr>,
         \<lparr> job_id = 3, status = ''completed'', client = Some 10, hiredFreelancer = None,
           title = ''App'' \<rparr>],
       users = [ex_client, ex_freelancer, ex_admin],
       notif_fails = (\<lambda>n. False), aggregate_fails = False \<rparr>"

definition ex_db :: db where
  "ex_db = \<lparr> reviews = [], notifications = [], next_oid = 100 \<rparr>"

definition ex_body :: create_body where
  "ex_body =
     \<lparr> b_jobId = 1, b_recipient = 20, b_rating = JNum 5,
       b_comment = JStr ''Great work, thanks!'', b_communication = JUndefined,
       b_qualityOfWork = JUndefined, b_valueForMoney = JUndefined, b_expertise = JUndefined,
       b_professionalism = JUndefined, b_isPublic = JUndefined \<rparr>"

definition ex_review :: review where
  "ex_review =
     \<lparr> rid = 100, job = 1, reviewer = 10, recipient = 20, rating = 5,
       comment = ''Great work, thanks!'', isPublic = Some True,
       reviewType = ''client-to-freelancer'', communication = Some 5, qualityOfWork = Some 5,
       valueForMoney = Some 5, expertise = Some 5, professionalism = Some 5,
       helpfulVotes = [], isReported = False, reportReason = None, reportedBy = None,
       reportedAt = None, isHidden = False, moderationReason = None, createdAt = 0 \<rparr>"

definition ex_db1 :: db where
  "ex_db1 =
     \<lparr> reviews = [ex_review],
       notifications = [new_review_notification ex_client ex_body ex_job ex_review],
       next_oid = 101 \<rparr>"

text \<open>
  The spec's side of the statistics: the reviews a user received, the exact average of a
  list of scores (0 when there is none), and what it is for \<open>y\<close> to be \<open>x\<close> rounded to
  one decimal place, a half going up: \<open>y\<close> is a multiple of 1/10 and
  \<open>y - 0.05 \<le> x < y + 0.05\<close>.
\<close>

definition received :: "db \<Rightarrow> oid \<Rightarrow> review list" where
  "received d userId = filter (\<lambda>r. recipient r = userId) (reviews d)"

definition mean :: "int list \<Rightarrow> rat" where
  "mean xs = (if xs = [] then 0 else of_int (sum_list xs) / of_nat (length xs))"

definition rounded_half_up_1dp :: "rat \<Rightarrow> rat \<Rightarrow> bool" where
  "rounded_half_up_1dp x y =
     (of_int \<lfloor>y * 10\<rfloor> = y * 10 \<and> y - 1 / 20 \<le> x \<and> x < y + 1 / 20)"

text \<open>
  Five reviews of user 20 rated 5, 5, 4, 3, 5, and four reviews of user 20 rated
  5, 4, 4, 4, whose average 4.25 is half way between 4.2 and 4.3.
\<close>

definition ex_stats_db :: db where
  "ex_stats_db =
     \<lparr> reviews = map (\<lambda>(i, n). ex_review\<lparr>rid := i, job := i, rating := n\<rparr>)
         [(101, 5), (102, 5), (103, 4), (104, 3), (105, 5)],
       notifications = [], next_oid = 106 \<rparr>"

definition ex_half_db :: db where
  "ex_half_db =
     \<lparr> reviews = map (\<lambda>(i, n). ex_review\<lparr>rid := i, job := i, rating := n\<rparr>)
         [(101, 5), (102, 4), (103, 4), (104, 4)],
       notifications = [], next_oid = 105 \<rparr>"

text \<open>
  The toggle of the spec on a list of voters: a voter who is in it is removed, one who is
  not is added.
\<close>

definition toggled :: "oid \<Rightarrow> oid list \<Rightarrow> oid list" where
  "toggled u vs = (if u \<in> set vs then filter (\<lambda>x. x \<noteq> u) vs else vs @ [u])"


text \<open>
  The review of the scenario with the votes of users 20 and 30; and a store where user 20
  received that review and a later one that is not public.
\<close>

definition ex_voted_db :: db where
  "ex_voted_db =
     \<lparr> reviews = [ex_review\<lparr>helpfulVotes := [20, 30]\<rparr>], notifications = [],
       next_oid = 101 \<rparr>"



text \<open>
  The scenario's review after its recipient reported it through \<open>reportReview\<close>, with the
  notification to the one administrator; and an update of the rating alone.
\<close>

definition ex_reported_review :: review where
  "ex_reported_review =
     ex_review\<lparr> isReported := True, reportReason := Some ''spam'', reportedBy := Some 20,
       reportedAt := Some 7 \<rparr>"

definition ex_reported_db :: db where
  "ex_reported_db =
     \<lparr> reviews = [ex_reported_review],
       notifications = [new_review_notification ex_client ex_body ex_job ex_review,
         review_reported_notification ex_freelancer (JStr ''spam'') ex_reported_review ex_admin],
       next_oid = 101 \<rparr>"

definition ex_update :: update_body where
  "ex_update =
     \<lparr> ub_rating = JNum 1, ub_content = JUndefined, ub_communication = JUndefined,
       ub_quality = JUndefined, ub_expertise = JUndefined, ub_deadlineAdherence = JUndefined,
       ub_overallExperience = JUndefined, ub_isPublic = JUndefined \<rparr>"

text \<open>
  What an operation may do to a stored review \<open>r\<close>: the references that stay, the
  operations that may change it (\<open>r'\<close> is the review afterwards), and who may delete it.
\<close>

definition same_references :: "review \<Rightarrow> review \<Rightarrow> bool" where
  "same_references r r' =
     (rid r' = rid r \<and> job r' = job r \<and> reviewer r' = reviewer r \<and> recipient r' = recipient r)"

fun may_change :: "operation \<Rightarrow> review \<Rightarrow> review \<Rightarrow> bool" where
  "may_change (UpdateReview thirtyDaysAgo u i b) r r' =
     (i = rid r \<and> user_id u = reviewer r \<and> \<not> createdAt r < thirtyDaysAgo)"
| "may_change (MarkReviewAsHelpful u i) r r' =
     (i = rid r \<and> r' = r\<lparr>helpfulVotes := toggled (user_id u) (helpfulVotes r)\<rparr>)"
| "may_change (ReportReview now u i reason) r r' =
     (i = rid r \<and> user_id u = recipient r
      \<and> r' = r\<lparr>isReported := isReported r', reportReason := reportReason r',
                reportedBy := reportedBy r', reportedAt := reportedAt r'\<rparr>)"
| "may_change (HandleReportedReview u i action adminNotes) r r' = False"
| "may_change (CreateReview now u b) r r' = False"
| "may_change (DeleteReview u i) r r' = False"

fun may_delete :: "operation \<Rightarrow> review \<Rightarrow> bool" where
  "may_delete (DeleteReview u i) r =
     (i = rid r \<and> (reviewer r = user_id u \<or> role u = ''admin''))"
| "may_delete (HandleReportedReview u i action adminNotes) r = False"
| "may_delete (CreateReview now u b) r = False"
| "may_delete (UpdateReview thirtyDaysAgo u i b) r = False"
| "may_delete (ReportReview now u i reason) r = False"
| "may_delete (MarkReviewAsHelpful u i) r = False"

text \<open>
  What holds of every store the operations build from an empty one: ids and triples are
  not repeated, ids are below the next one, and every stored review passes validation and
  has no voter twice.
\<close>

definition db_invariant :: "db \<Rightarrow> bool" where
  "db_invariant d =
     (distinct (map rid (reviews d)) \<and> unique_index d
      \<and> list_all (\<lambda>r. rid r < next_oid d \<and> Review_validate r \<and> distinct (helpfulVotes r))
           (reviews d))"

section \<open>Properties of createReview\<close>

lemma createReview_eq_checks_Inr:
  "createReview_checks e d u b = Inr (j, rt) \<Longrightarrow>
   createReview e d now u b = createReview_insert e d now u b j rt"
  by (simp add: createReview_def createReview_race_def)

lemma checks_Inr_iff:
  "createReview_checks e d u b = Inr (j, rt) \<longleftrightarrow>
     Job_findById e (b_jobId b) = Some j \<and> User_findById e (b_recipient b) \<noteq> None
     \<and> status j = ''completed'' \<and> populate e (client j) \<noteq> None
     \<and> populate e (hiredFreelancer j) \<noteq> None
     \<and> (role u = ''client'' \<or> role u = ''freelancer'')
     \<and> rt = (if role u = ''client'' then ''client-to-freelancer'' else ''freelancer-to-client'')
     \<and> Review_findOne d (b_jobId b) (user_id u) (b_recipient b) = None"
  by (auto simp: createReview_checks_def Let_def split: option.splits)

lemma cast_review_Some:
  "cast_review i now nr = Some r \<Longrightarrow>
     rid r = i \<and> job r = nr_job nr \<and> reviewer r = nr_reviewer nr \<and> recipient r = nr_recipient nr
     \<and> nr_rating nr = Num (rating r)
     \<and> (\<exists>c. communication r = Some c \<and> nr_communication nr = Num c)
     \<and> (\<exists>c. qualityOfWork r = Some c \<and> nr_qualityOfWork nr = Num c)
     \<and> (\<exists>c. valueForMoney r = Some c \<and> nr_valueForMoney nr = Num c)
     \<and> (\<exists>c. expertise r = Some c \<and> nr_expertise nr = Num c)
     \<and> (\<exists>c. professionalism r = Some c \<and> nr_professionalism nr = Num c)
     \<and> helpfulVotes r = [] \<and> \<not> isReported r \<and> createdAt r = now
     \<and> reviewType r = nr_type nr \<and> isPublic r = Some (nr_isPublic nr)"
  by (auto simp: cast_review_def split: number.splits option.splits)

lemma cast_review_other_id:
  "cast_review i now nr = Some r \<Longrightarrow>
   cast_review i' now' nr = Some (r\<lparr>rid := i', createdAt := now'\<rparr>)"
  by (auto simp: cast_review_def split: number.splits option.splits)

lemma Review_validate_rid [simp]:
  "Review_validate (r\<lparr>rid := i, createdAt := t\<rparr>) = Review_validate r"
  by (simp add: Review_validate_def)

lemma Review_create_Inr_iff:
  "Review_create d now nr = Inr (r, d1) \<longleftrightarrow>
     cast_review (next_oid d) now nr = Some r \<and> Review_validate r
     \<and> \<not> list_ex (same_triple (job r) (reviewer r) (recipient r)) (reviews d)
     \<and> d1 = d\<lparr>reviews := reviews d @ [r], next_oid := Suc (next_oid d)\<rparr>"
  by (auto simp: Review_create_def split: option.splits)

text \<open>What a success response of \<open>createReview\<close> means.\<close>

lemma createReview_success:
  assumes "createReview e d now u b = (SuccessResponse c m p, d')"
  shows "\<exists>j rt r. createReview_checks e d u b = Inr (j, rt)
     \<and> Review_create d now (new_review_of u b rt) =
         Inr (r, d\<lparr>reviews := reviews d @ [r], next_oid := Suc (next_oid d)\<rparr>)
     \<and> p = ReviewData r \<and> c = 201 \<and> m = ''Review submitted successfully''
     \<and> d' = d\<lparr>reviews := reviews d @ [r], next_oid := Suc (next_oid d),
              notifications := notifications d @ [new_review_notification u b j r]\<rparr>"
proof (cases "createReview_checks e d u b")
  case (Inl resp)
  with assms have "resp = SuccessResponse c m p"
    by (simp add: createReview_def createReview_race_def)
  with Inl show ?thesis
    by (auto simp: createReview_checks_def Let_def split: option.splits if_splits)
next
  case (Inr x)
  obtain j rt where x: "x = (j, rt)" by (cases x)
  with Inr assms have ins: "createReview_insert e d now u b j rt = (SuccessResponse c m p, d')"
    by (simp add: createReview_eq_checks_Inr)
  show ?thesis
  proof (cases "Review_create d now (new_review_of u b rt)")
    case (Inl err)
    with ins show ?thesis
      by (cases err) (auto simp: createReview_insert_def split: option.splits if_splits)
  next
    case (Inr y)
    obtain r d1 where y: "y = (r, d1)" by (cases y)
    with Inr have rc: "Review_create d now (new_review_of u b rt) = Inr (r, d1)" by simp
    then have d1: "d1 = d\<lparr>reviews := reviews d @ [r], next_oid := Suc (next_oid d)\<rparr>"
      by (simp add: Review_create_Inr_iff)
    from ins rc show ?thesis using \<open>createReview_checks e d u b = Inr x\<close> x d1
      by (auto simp: createReview_insert_def Notification_create_def split: if_splits)
  qed
qed

lemma find_None_filter: "find P xs = None \<longleftrightarrow> filter P xs = []"
  by (induction xs) auto

lemma find_Some_ex: "list_ex P xs \<Longrightarrow> \<exists>x. find P xs = Some x"
  by (induction xs) auto

lemma distinct_triple_count:
  "distinct (map (\<lambda>r. (job r, reviewer r, recipient r)) xs) \<Longrightarrow>
   length (filter (same_triple j rv rc) xs) \<le> 1"
  by (induction xs) (auto simp: same_triple_def filter_empty_conv image_iff)

lemma unique_index_count:
  "unique_index d \<Longrightarrow> length (filter (same_triple j rv rc) (reviews d)) \<le> 1"
  unfolding unique_index_def by (rule distinct_triple_count)

text \<open>The second submission, with no request in between: the lookup finds the review.\<close>

lemma second_submit_conflict:
  assumes ok: "createReview e d now u b = (SuccessResponse c m p, d')"
    and same: "b_jobId b2 = b_jobId b" "b_recipient b2 = b_recipient b"
  shows "createReview e d' now2 u b2 =
           (ErrorResponse 400 ''You have already submitted a review for this job'', d')"
    and "length (filter (same_triple (b_jobId b) (user_id u) (b_recipient b)) (reviews d')) = 1"
proof -
  from createReview_success[OF ok] obtain j rt r where
    chk: "createReview_checks e d u b = Inr (j, rt)"
    and rc: "Review_create d now (new_review_of u b rt) =
         Inr (r, d\<lparr>reviews := reviews d @ [r], next_oid := Suc (next_oid d)\<rparr>)"
    and d': "d' = d\<lparr>reviews := reviews d @ [r], next_oid := Suc (next_oid d),
              notifications := notifications d @ [new_review_notification u b j r]\<rparr>"
    by blast
  from rc have cr: "cast_review (next_oid d) now (new_review_of u b rt) = Some r"
    by (simp add: Review_create_Inr_iff)
  from cast_review_Some[OF cr] have tr: "same_triple (b_jobId b) (user_id u) (b_recipient b) r"
    by (simp add: same_triple_def new_review_of_def)
  from chk have none:
    "filter (same_triple (b_jobId b) (user_id u) (b_recipient b)) (reviews d) = []"
    by (simp add: checks_Inr_iff Review_findOne_def find_None_filter)
  from none tr d'
  show "length (filter (same_triple (b_jobId b) (user_id u) (b_recipient b)) (reviews d')) = 1"
    by simp
  from tr d' have "list_ex (same_triple (b_jobId b) (user_id u) (b_recipient b)) (reviews d')"
    by (simp add: list_ex_iff)
  from find_Some_ex[OF this] obtain x where
    "Review_findOne d' (b_jobId b2) (user_id u) (b_recipient b2) = Some x"
    by (auto simp: Review_findOne_def same)
  with chk same show "createReview e d' now2 u b2 =
           (ErrorResponse 400 ''You have already submitted a review for this job'', d')"
    by (auto simp: checks_Inr_iff createReview_def createReview_race_def
          createReview_checks_def Let_def split: option.splits)
qed

text \<open>
  The second submission that passed the lookup before the first one committed: the insert
  hits the unique index, and the \<open>catch\<close> answers as the lookup would have.
\<close>

lemma race_conflict:
  assumes chk: "createReview_checks e d0 u b = Inr (j, rt)"
    and alone: "Review_create d0 now0 (new_review_of u b rt) = Inr (r0, d0')"
    and dup: "list_ex (same_triple (b_jobId b) (user_id u) (b_recipient b)) (reviews d)"
  shows "createReview_race e d0 d now u b =
           (ErrorResponse 400 ''You have already submitted a review for this job'', d)"
proof -
  from alone have cr0: "cast_review (next_oid d0) now0 (new_review_of u b rt) = Some r0"
    and v0: "Review_validate r0"
    by (simp_all add: Review_create_Inr_iff)
  let ?r = "r0\<lparr>rid := next_oid d, createdAt := now\<rparr>"
  from cast_review_other_id[OF cr0]
  have cr: "cast_review (next_oid d) now (new_review_of u b rt) = Some ?r" .
  from cast_review_Some[OF cr0]
  have tr: "job ?r = b_jobId b" "reviewer ?r = user_id u" "recipient ?r = b_recipient b"
    by (simp_all add: new_review_of_def)
  have "Review_create d now (new_review_of u b rt) = Inl duplicate_key"
    using cr v0 dup tr by (simp add: Review_create_def)
  then show ?thesis using chk
    by (simp add: createReview_race_def createReview_insert_def duplicate_key_def)
qed

text \<open>
  Whoever calls with the ids of the triple once the review is stored, and whatever the
  jobs and users are by then: the call ends in one of the early returns of the checks (the
  400 of the lookup, or the error of a check before it) and stores nothing.
\<close>

lemma later_submit_never_inserts:
  assumes ok: "createReview e d now u b = (SuccessResponse c m p, d')"
    and same: "b_jobId b2 = b_jobId b" "b_recipient b2 = b_recipient b" "user_id u2 = user_id u"
  shows "\<exists>resp. createReview_checks e2 d' u2 b2 = Inl resp
           \<and> createReview e2 d' now2 u2 b2 = (resp, d')"
proof -
  from createReview_success[OF ok] obtain j rt r where
    rc: "Review_create d now (new_review_of u b rt) =
         Inr (r, d\<lparr>reviews := reviews d @ [r], next_oid := Suc (next_oid d)\<rparr>)"
    and d': "d' = d\<lparr>reviews := reviews d @ [r], next_oid := Suc (next_oid d),
              notifications := notifications d @ [new_review_notification u b j r]\<rparr>"
    by blast
  from rc have cr: "cast_review (next_oid d) now (new_review_of u b rt) = Some r"
    by (simp add: Review_create_Inr_iff)
  from cast_review_Some[OF cr] have tr: "same_triple (b_jobId b) (user_id u) (b_recipient b) r"
    by (simp add: same_triple_def new_review_of_def)
  from tr d' have "list_ex (same_triple (b_jobId b) (user_id u) (b_recipient b)) (reviews d')"
    by (simp add: list_ex_iff)
  from find_Some_ex[OF this] obtain x where
    fo: "Review_findOne d' (b_jobId b2) (user_id u2) (b_recipient b2) = Some x"
    by (auto simp: Review_findOne_def same)
  have "\<exists>resp. createReview_checks e2 d' u2 b2 = Inl resp"
    unfolding createReview_checks_def Let_def
    by (simp only: fo option.case split: option.split if_split) blast
  then obtain resp where chk: "createReview_checks e2 d' u2 b2 = Inl resp" by blast
  then have "createReview e2 d' now2 u2 b2 = (resp, d')"
    by (simp add: createReview_def createReview_race_def)
  with chk show ?thesis by blast
qed

lemma ex_create:
  "createReview ex_env ex_db 0 ex_client ex_body =
     (SuccessResponse 201 ''Review submitted successfully'' (ReviewData ex_review), ex_db1)"
  by code_simp

lemma ex_checks:
  "createReview_checks ex_env ex_db ex_client ex_body = Inr (ex_job, ''client-to-freelancer'')"
  by code_simp

lemma ex_insert:
  "Review_create ex_db 0 (new_review_of ex_client ex_body ''client-to-freelancer'') =
     Inr (ex_review, ex_db\<lparr>reviews := [ex_review], next_oid := 101\<rparr>)"
  by code_simp

text \<open>
  C1. After a successful \<open>createReview\<close> for (job, reviewer, recipient), a second call by
  the same user for the same job and recipient, with the jobs and users as they were and
  whatever else it submits, answers 400
  ``You have already submitted a review for this job'' (the Conflict of the spec), changes
  nothing, and the store holds exactly one review of the triple. The same answer comes
  when the second call passed the lookup on an earlier store \<open>d0\<close> and its insert meets the
  review in the store \<open>d\<close>: the duplicate-key error of the unique index is translated, and
  \<open>d\<close>, which the index keeps at one review per triple, is unchanged.
\<close>

theorem createReview_duplicate_is_conflict:
  "(createReview e d now u b = (SuccessResponse c m p, d')
      \<and> b_jobId b2 = b_jobId b \<and> b_recipient b2 = b_recipient b \<longrightarrow>
    createReview e d' now2 u b2 =
      (ErrorResponse 400 ''You have already submitted a review for this job'', d')
    \<and> length (filter (same_triple (b_jobId b) (user_id u) (b_recipient b)) (reviews d')) = 1)
   \<and> (createReview_checks e d0 u b3 = Inr (j, rt)
      \<and> Review_create d0 now0 (new_review_of u b3 rt) = Inr (r0, d0')
      \<and> list_ex (same_triple (b_jobId b3) (user_id u) (b_recipient b3)) (reviews d3)
      \<and> unique_index d3 \<longrightarrow>
    createReview_race e d0 d3 now3 u b3 =
      (ErrorResponse 400 ''You have already submitted a review for this job'', d3)
    \<and> length (filter (same_triple (b_jobId b3) (user_id u) (b_recipient b3)) (reviews d3)) = 1)"
proof (intro conjI impI)
  assume a: "createReview e d now u b = (SuccessResponse c m p, d')
      \<and> b_jobId b2 = b_jobId b \<and> b_recipient b2 = b_recipient b"
  then show "createReview e d' now2 u b2 =
      (ErrorResponse 400 ''You have already submitted a review for this job'', d')"
    using second_submit_conflict(1) by blast
  from a show
    "length (filter (same_triple (b_jobId b) (user_id u) (b_recipient b)) (reviews d')) = 1"
    using second_submit_conflict(2) by blast
next
  assume a: "createReview_checks e d0 u b3 = Inr (j, rt)
      \<and> Review_create d0 now0 (new_review_of u b3 rt) = Inr (r0, d0')
      \<and> list_ex (same_triple (b_jobId b3) (user_id u) (b_recipient b3)) (reviews d3)
      \<and> unique_index d3"
  then show "createReview_race e d0 d3 now3 u b3 =
      (ErrorResponse 400 ''You have already submitted a review for this job'', d3)"
    using race_conflict by blast
  from a have "filter (same_triple (b_jobId b3) (user_id u) (b_recipient b3)) (reviews d3) \<noteq> []"
    by (auto simp: list_ex_iff filter_empty_conv)
  then have "1 \<le> length (filter (same_triple (b_jobId b3) (user_id u) (b_recipient b3)) (reviews d3))"
    by (cases "filter (same_triple (b_jobId b3) (user_id u) (b_recipient b3)) (reviews d3)") simp_all
  moreover from a
  have "length (filter (same_triple (b_jobId b3) (user_id u) (b_recipient b3)) (reviews d3)) \<le> 1"
    using unique_index_count by blast
  ultimately show
    "length (filter (same_triple (b_jobId b3) (user_id u) (b_recipient b3)) (reviews d3)) = 1"
    by simp
qed

theorem createReview_duplicate_is_conflict_witness:
  "createReview ex_env ex_db 0 ex_client ex_body =
     (SuccessResponse 201 ''Review submitted successfully'' (ReviewData ex_review), ex_db1)
   \<and> createReview ex_env ex_db1 9 ex_client (ex_body\<lparr>b_rating := JNum 1\<rparr>) =
       (ErrorResponse 400 ''You have already submitted a review for this job'', ex_db1)
   \<and> length (filter (same_triple 1 10 20) (reviews ex_db1)) = 1
   \<and> createReview_race ex_env ex_db ex_db1 9 ex_client ex_body =
       (ErrorResponse 400 ''You have already submitted a review for this job'', ex_db1)"
proof -
  have ids: "b_jobId (ex_body\<lparr>b_rating := JNum 1\<rparr>) = b_jobId ex_body"
    "b_recipient (ex_body\<lparr>b_rating := JNum 1\<rparr>) = b_recipient ex_body"
    by simp_all
  have tr: "b_jobId ex_body = 1" "user_id ex_client = 10" "b_recipient ex_body = 20"
    by (simp_all add: ex_body_def ex_client_def)
  have dup: "list_ex (same_triple (b_jobId ex_body) (user_id ex_client) (b_recipient ex_body))
     (reviews ex_db1)"
    by code_simp
  have uniq: "unique_index ex_db1"
    by code_simp
  from createReview_duplicate_is_conflict
    [of ex_env ex_db 0 ex_client ex_body 201 "''Review submitted successfully''"
      "ReviewData ex_review" ex_db1 "ex_body\<lparr>b_rating := JNum 1\<rparr>" 9
      ex_db ex_body ex_job "''client-to-freelancer''" 0 ex_review
      "ex_db\<lparr>reviews := [ex_review], next_oid := 101\<rparr>" ex_db1 9]
    ex_create ids ex_checks ex_insert dup uniq tr
  show ?thesis by simp
qed

text \<open>
  C3. \<open>createReview\<close> checks in a fixed order and the first failing check decides the
  response: no job, 404; else no recipient user, 404; else a status other than
  \<open>completed\<close>, 400, whatever the role of the caller; else a job without a client or a
  hired freelancer, 400; else a role other than \<open>client\<close> or \<open>freelancer\<close>, 403. In each
  case nothing is stored. Any other response (the lookup of an existing review, the
  validation of the payload and the insert produce it) comes only when all five checks
  have passed.
\<close>

theorem createReview_validation_order:
  "(Job_findById e (b_jobId b) = None \<longrightarrow>
      createReview e d now u b = (ErrorResponse 404 ''Job not found'', d))
   \<and> (Job_findById e (b_jobId b) \<noteq> None \<and> User_findById e (b_recipient b) = None \<longrightarrow>
      createReview e d now u b = (ErrorResponse 404 ''Recipient user not found'', d))
   \<and> (\<forall>j. Job_findById e (b_jobId b) = Some j \<and> User_findById e (b_recipient b) \<noteq> None
        \<and> status j \<noteq> ''completed'' \<longrightarrow>
      createReview e d now u b = (ErrorResponse 400 ''You can only review completed jobs'', d))
   \<and> (\<forall>j. Job_findById e (b_jobId b) = Some j \<and> User_findById e (b_recipient b) \<noteq> None
        \<and> status j = ''completed''
        \<and> (populate e (client j) = None \<or> populate e (hiredFreelancer j) = None) \<longrightarrow>
      createReview e d now u b =
        (ErrorResponse 400
           ''Job must have both a client and hired freelancer to submit reviews'', d))
   \<and> (\<forall>j. Job_findById e (b_jobId b) = Some j \<and> User_findById e (b_recipient b) \<noteq> None
        \<and> status j = ''completed''
        \<and> populate e (client j) \<noteq> None \<and> populate e (hiredFreelancer j) \<noteq> None
        \<and> role u \<noteq> ''client'' \<and> role u \<noteq> ''freelancer'' \<longrightarrow>
      createReview e d now u b =
        (ErrorResponse 403
           ''You must be either the client or the hired freelancer to submit a review'', d))
   \<and> (fst (createReview e d now u b) \<noteq> ErrorResponse 404 ''Job not found''
       \<and> fst (createReview e d now u b) \<noteq> ErrorResponse 404 ''Recipient user not found''
       \<and> fst (createReview e d now u b) \<noteq> ErrorResponse 400 ''You can only review completed jobs''
       \<and> fst (createReview e d now u b) \<noteq> ErrorResponse 400
            ''Job must have both a client and hired freelancer to submit reviews''
       \<and> fst (createReview e d now u b) \<noteq> ErrorResponse 403
            ''You must be either the client or the hired freelancer to submit a review'' \<longrightarrow>
      (\<exists>j. Job_findById e (b_jobId b) = Some j \<and> User_findById e (b_recipient b) \<noteq> None
        \<and> status j = ''completed''
        \<and> populate e (client j) \<noteq> None \<and> populate e (hiredFreelancer j) \<noteq> None
        \<and> (role u = ''client'' \<or> role u = ''freelancer'')))"
  by (auto simp: createReview_def createReview_race_def createReview_checks_def Let_def
        split: option.splits)

theorem createReview_validation_order_witness:
  "createReview ex_env ex_db 0 ex_client (ex_body\<lparr>b_jobId := 9\<rparr>) =
     (ErrorResponse 404 ''Job not found'', ex_db)
   \<and> createReview ex_env ex_db 0 ex_client (ex_body\<lparr>b_recipient := 99\<rparr>) =
     (ErrorResponse 404 ''Recipient user not found'', ex_db)
   \<and> createReview ex_env ex_db 0 ex_admin (ex_body\<lparr>b_jobId := 2\<rparr>) =
     (ErrorResponse 400 ''You can only review completed jobs'', ex_db)
   \<and> createReview ex_env ex_db 0 ex_client (ex_body\<lparr>b_jobId := 3\<rparr>) =
     (ErrorResponse 400
        ''Job must have both a client and hired freelancer to submit reviews'', ex_db)
   \<and> createReview ex_env ex_db 0 ex_admin ex_body =
     (ErrorResponse 403
        ''You must be either the client or the hired freelancer to submit a review'', ex_db)
   \<and> fst (createReview ex_env ex_db 0 ex_client ex_body) =
       SuccessResponse 201 ''Review submitted successfully'' (ReviewData ex_review)
   \<and> (\<exists>j. Job_findById ex_env (b_jobId ex_body) = Some j \<and> status j = ''completed''
        \<and> (role ex_client = ''client'' \<or> role ex_client = ''freelancer''))"
proof -
  have h1: "Job_findById ex_env (b_jobId (ex_body\<lparr>b_jobId := 9\<rparr>)) = None"
    by code_simp
  have h2: "Job_findById ex_env (b_jobId (ex_body\<lparr>b_recipient := 99\<rparr>)) \<noteq> None
      \<and> User_findById ex_env (b_recipient (ex_body\<lparr>b_recipient := 99\<rparr>)) = None"
    by code_simp
  have h3: "Job_findById ex_env (b_jobId (ex_body\<lparr>b_jobId := 2\<rparr>)) =
        Some \<lparr> job_id = 2, status = ''in-progress'', client = Some 10,
               hiredFreelancer = Some 20, title = ''Site'' \<rparr>
      \<and> User_findById ex_env (b_recipient (ex_body\<lparr>b_jobId := 2\<rparr>)) \<noteq> None
      \<and> status \<lparr> job_id = 2, status = ''in-progress'', client = Some 10,
               hiredFreelancer = Some 20, title = ''Site'' \<rparr> \<noteq> ''completed''"
    by code_simp
  have h4: "Job_findById ex_env (b_jobId (ex_body\<lparr>b_jobId := 3\<rparr>)) =
        Some \<lparr> job_id = 3, status = ''completed'', client = Some 10,
               hiredFreelancer = None, title = ''App'' \<rparr>
      \<and> User_findById ex_env (b_recipient (ex_body\<lparr>b_jobId := 3\<rparr>)) \<noteq> None
      \<and> status \<lparr> job_id = 3, status = ''completed'', client = Some 10,
               hiredFreelancer = None, title = ''App'' \<rparr> = ''completed''
      \<and> populate ex_env (hiredFreelancer \<lparr> job_id = 3, status = ''completed'',
               client = Some 10, hiredFreelancer = None, title = ''App'' \<rparr>) = None"
    by code_simp
  have h5: "Job_findById ex_env (b_jobId ex_body) = Some ex_job
      \<and> User_findById ex_env (b_recipient ex_body) \<noteq> None
      \<and> status ex_job = ''completed''
      \<and> populate ex_env (client ex_job) \<noteq> None \<and> populate ex_env (hiredFreelancer ex_job) \<noteq> None
      \<and> role ex_admin \<noteq> ''client'' \<and> role ex_admin \<noteq> ''freelancer''"
    by code_simp
  have h6: "fst (createReview ex_env ex_db 0 ex_client ex_body) =
       SuccessResponse 201 ''Review submitted successfully'' (ReviewData ex_review)"
    by (simp add: ex_create)
  have c1: "createReview ex_env ex_db 0 ex_client (ex_body\<lparr>b_jobId := 9\<rparr>) =
     (ErrorResponse 404 ''Job not found'', ex_db)"
    using createReview_validation_order
      [where e = ex_env and b = "ex_body\<lparr>b_jobId := 9\<rparr>" and d = ex_db and now = 0
         and u = ex_client] h1
    by blast
  have c2: "createReview ex_env ex_db 0 ex_client (ex_body\<lparr>b_recipient := 99\<rparr>) =
     (ErrorResponse 404 ''Recipient user not found'', ex_db)"
    using createReview_validation_order
      [where e = ex_env and b = "ex_body\<lparr>b_recipient := 99\<rparr>" and d = ex_db and now = 0
         and u = ex_client] h2
    by blast
  have c3: "createReview ex_env ex_db 0 ex_admin (ex_body\<lparr>b_jobId := 2\<rparr>) =
     (ErrorResponse 400 ''You can only review completed jobs'', ex_db)"
    using createReview_validation_order
      [where e = ex_env and b = "ex_body\<lparr>b_jobId := 2\<rparr>" and d = ex_db and now = 0
         and u = ex_admin] h3
    by blast
  have c4: "createReview ex_env ex_db 0 ex_client (ex_body\<lparr>b_jobId := 3\<rparr>) =
     (ErrorResponse 400
        ''Job must have both a client and hired freelancer to submit reviews'', ex_db)"
    using createReview_validation_order
      [where e = ex_env and b = "ex_body\<lparr>b_jobId := 3\<rparr>" and d = ex_db and now = 0
         and u = ex_client] h4
    by blast
  have c5: "createReview ex_env ex_db 0 ex_admin ex_body =
     (ErrorResponse 403
        ''You must be either the client or the hired freelancer to submit a review'', ex_db)"
    using createReview_validation_order
      [where e = ex_env and b = ex_body and d = ex_db and now = 0 and u = ex_admin] h5
    by blast
  have c6: "\<exists>j. Job_findById ex_env (b_jobId ex_body) = Some j \<and> status j = ''completed''
        \<and> (role ex_client = ''client'' \<or> role ex_client = ''freelancer'')"
    using createReview_validation_order
      [where e = ex_env and b = ex_body and d = ex_db and now = 0 and u = ex_client] h6
    by auto
  from c1 c2 c3 c4 c5 c6 h6 show ?thesis by blast
qed

text \<open>
  C4. In every review that \<open>createReview\<close> stores and answers with success, a category
  score left out of the body equals the stored rating, which is \<open>parseInt\<close> of the
  submitted rating; and all five category scores are set, each between 1 and 5.
\<close>

theorem createReview_omitted_categories_default:
  assumes "createReview e d now u b = (SuccessResponse c m (ReviewData r), d')"
  shows "reviews d' = reviews d @ [r] \<and> parseInt (b_rating b) = Num (rating r)
     \<and> (b_communication b = JUndefined \<longrightarrow> communication r = Some (rating r))
     \<and> (b_qualityOfWork b = JUndefined \<longrightarrow> qualityOfWork r = Some (rating r))
     \<and> (b_valueForMoney b = JUndefined \<longrightarrow> valueForMoney r = Some (rating r))
     \<and> (b_expertise b = JUndefined \<longrightarrow> expertise r = Some (rating r))
     \<and> (b_professionalism b = JUndefined \<longrightarrow> professionalism r = Some (rating r))
     \<and> (\<exists>s. communication r = Some s \<and> score_ok s)
     \<and> (\<exists>s. qualityOfWork r = Some s \<and> score_ok s)
     \<and> (\<exists>s. valueForMoney r = Some s \<and> score_ok s)
     \<and> (\<exists>s. expertise r = Some s \<and> score_ok s)
     \<and> (\<exists>s. professionalism r = Some s \<and> score_ok s)"
proof -
  from createReview_success[OF assms] obtain j rt where
    rc: "Review_create d now (new_review_of u b rt) =
         Inr (r, d\<lparr>reviews := reviews d @ [r], next_oid := Suc (next_oid d)\<rparr>)"
    and d': "d' = d\<lparr>reviews := reviews d @ [r], next_oid := Suc (next_oid d),
              notifications := notifications d @ [new_review_notification u b j r]\<rparr>"
    by auto
  from rc have cr: "cast_review (next_oid d) now (new_review_of u b rt) = Some r"
    and v: "Review_validate r"
    by (simp_all add: Review_create_Inr_iff)
  note f = cast_review_Some[OF cr]
  from f have rt: "parseInt (b_rating b) = Num (rating r)"
    by (simp add: new_review_of_def)
  from f obtain co qw vm ex pr where cats:
    "communication r = Some co" "parseInt (js_or (b_communication b) (b_rating b)) = Num co"
    "qualityOfWork r = Some qw" "parseInt (js_or (b_qualityOfWork b) (b_rating b)) = Num qw"
    "valueForMoney r = Some vm" "parseInt (js_or (b_valueForMoney b) (b_rating b)) = Num vm"
    "expertise r = Some ex" "parseInt (js_or (b_expertise b) (b_rating b)) = Num ex"
    "professionalism r = Some pr" "parseInt (js_or (b_professionalism b) (b_rating b)) = Num pr"
    by (auto simp: new_review_of_def)
  from v cats have ok: "score_ok co" "score_ok qw" "score_ok vm" "score_ok ex" "score_ok pr"
    by (simp_all add: Review_validate_def opt_score_ok_def)
  from d' have "reviews d' = reviews d @ [r]" by simp
  with rt cats ok show ?thesis
    by (auto simp: js_or_def)
qed

theorem createReview_omitted_categories_default_witness:
  "createReview ex_env ex_db 0 ex_client ex_body =
     (SuccessResponse 201 ''Review submitted successfully'' (ReviewData ex_review), ex_db1)
   \<and> b_communication ex_body = JUndefined \<and> b_professionalism ex_body = JUndefined
   \<and> b_rating ex_body = JNum 5 \<and> rating ex_review = 5
   \<and> communication ex_review = Some (rating ex_review)
   \<and> professionalism ex_review = Some (rating ex_review)
   \<and> reviews ex_db1 = reviews ex_db @ [ex_review]"
proof -
  have u: "b_communication ex_body = JUndefined" "b_professionalism ex_body = JUndefined"
    "b_rating ex_body = JNum 5"
    by (simp_all add: ex_body_def)
  have r5: "rating ex_review = 5" by (simp add: ex_review_def)
  from createReview_omitted_categories_default[OF ex_create] u r5 ex_create
  show ?thesis by simp
qed

text \<open>
  C5, as the code has it. When the checks pass and the review is inserted, the dispatch of
  the notification decides the response: if \<open>Notification.create\<close> fails, the outer
  \<open>catch\<close> answers 500 with the error's message, and the review stays stored; the success
  response comes only when the notification was created.
\<close>

theorem createReview_notification_outcome:
  assumes "createReview_checks e d u b = Inr (j, rt)"
    and "Review_create d now (new_review_of u b rt) = Inr (r, d1)"
  shows "createReview e d now u b =
     (if notif_fails e (new_review_notification u b j r)
      then (ServerError NotificationError, d1)
      else (SuccessResponse 201 ''Review submitted successfully'' (ReviewData r),
            d1\<lparr>notifications := notifications d1 @ [new_review_notification u b j r]\<rparr>))
     \<and> r \<in> set (reviews d1)"
proof -
  from assms(2) have "r \<in> set (reviews d1)"
    by (simp add: Review_create_Inr_iff)
  moreover from assms have "createReview e d now u b =
     (if notif_fails e (new_review_notification u b j r)
      then (ServerError NotificationError, d1)
      else (SuccessResponse 201 ''Review submitted successfully'' (ReviewData r),
            d1\<lparr>notifications := notifications d1 @ [new_review_notification u b j r]\<rparr>))"
    by (simp add: createReview_eq_checks_Inr createReview_insert_def Notification_create_def)
  ultimately show ?thesis by simp
qed

theorem createReview_notification_outcome_witness:
  "createReview_checks (ex_env\<lparr>notif_fails := \<lambda>n. True\<rparr>) ex_db ex_client ex_body =
     Inr (ex_job, ''client-to-freelancer'')
   \<and> Review_create ex_db 0 (new_review_of ex_client ex_body ''client-to-freelancer'') =
     Inr (ex_review, ex_db\<lparr>reviews := [ex_review], next_oid := 101\<rparr>)
   \<and> createReview (ex_env\<lparr>notif_fails := \<lambda>n. True\<rparr>) ex_db 0 ex_client ex_body =
     (ServerError NotificationError, ex_db\<lparr>reviews := [ex_review], next_oid := 101\<rparr>)
   \<and> ex_review \<in> set (reviews (ex_db\<lparr>reviews := [ex_review], next_oid := 101\<rparr>))"
proof -
  have chk: "createReview_checks (ex_env\<lparr>notif_fails := \<lambda>n. True\<rparr>) ex_db ex_client ex_body =
     Inr (ex_job, ''client-to-freelancer'')"
    by code_simp
  from createReview_notification_outcome[OF chk ex_insert] chk ex_insert
  show ?thesis by simp
qed

text \<open>
  C5 as the spec states it fails: the review of the scenario is inserted, the notification
  fails, and the caller gets the 500 response, not the success.
\<close>

theorem createReview_notification_failure_counterexample:
  "createReview (ex_env\<lparr>notif_fails := \<lambda>n. True\<rparr>) ex_db 0 ex_client ex_body =
     (ServerError NotificationError, ex_db\<lparr>reviews := [ex_review], next_oid := 101\<rparr>)"
  by code_simp

section \<open>Properties of getReviewStats\<close>

lemma Math_round_rounds: "rounded_half_up_1dp x (of_int (Math_round (x * 10)) / 10)"
proof -
  have "of_int \<lfloor>x * 10 + 1 / 2\<rfloor> \<le> x * 10 + 1 / 2" by (rule of_int_floor_le)
  moreover have "x * 10 + 1 / 2 < of_int \<lfloor>x * 10 + 1 / 2\<rfloor> + 1" by linarith
  ultimately show ?thesis
    by (simp add: rounded_half_up_1dp_def Math_round_def field_simps)
qed

lemma to_number_avg: "to_number (avg xs) = mean xs"
  by (simp add: to_number_def avg_def mean_def)

lemma or_zero_avg: "or_zero (avg xs) = mean xs"
  by (simp add: or_zero_def avg_def mean_def)

lemma Math_round_44: "Math_round 44 = 44"
  unfolding Math_round_def by (rule floor_unique) simp_all

lemma getReviewStats_empty:
  "aggregate_fails e \<or> received d userId = [] \<Longrightarrow> getReviewStats e d userId = zero_stats"
  by (auto simp: getReviewStats_def aggregate_stats_def received_def)

lemma getReviewStats_nonempty:
  assumes "\<not> aggregate_fails e" and "received d userId = rs" and "rs \<noteq> []"
  shows "getReviewStats e d userId =
     \<lparr> averageRating = of_int (Math_round (mean (map rating rs) * 10)) / 10,
       totalReviews = length rs,
       categoryAverages =
         \<lparr> ca_communication =
             of_int (Math_round (mean (List.map_filter communication rs) * 10)) / 10,
           ca_qualityOfWork =
             of_int (Math_round (mean (List.map_filter qualityOfWork rs) * 10)) / 10,
           ca_valueForMoney =
             of_int (Math_round (mean (List.map_filter valueForMoney rs) * 10)) / 10,
           ca_expertise =
             of_int (Math_round (mean (List.map_filter expertise rs) * 10)) / 10,
           ca_professionalism =
             of_int (Math_round (mean (List.map_filter professionalism rs) * 10)) / 10 \<rparr>,
       ratingDistribution =
         \<lparr> fiveStar = star_count 5 rs, fourStar = star_count 4 rs, threeStar = star_count 3 rs,
           twoStar = star_count 2 rs, oneStar = star_count 1 rs \<rparr> \<rparr>"
  using assms
  by (simp add: getReviewStats_def aggregate_stats_def to_number_avg or_zero_avg received_def)

lemma mset_eq_stats:
  assumes "mset xs = mset ys"
  shows "sum_list xs = sum_list (ys :: int list)" "length xs = length ys"
    "length (filter P xs) = length (filter P ys)"
proof -
  from assms show "length xs = length ys" by (rule mset_eq_length)
  from assms have "sum_mset (mset xs) = sum_mset (mset ys)" by simp
  then show "sum_list xs = sum_list ys" by (simp add: sum_mset_sum_list)
  from assms have "mset (filter P xs) = mset (filter P ys)" by simp
  then show "length (filter P xs) = length (filter P ys)" by (rule mset_eq_length)
qed

lemma star_count_map: "star_count n rs = length (filter (\<lambda>x. x = n) (map rating rs))"
  by (induction rs) (auto simp: star_count_def)

lemma example_stats:
  assumes "\<not> aggregate_fails e"
    and m: "mset (map rating (received d userId)) = mset [5, 5, 4, 3, 5]"
  shows "averageRating (getReviewStats e d userId) = 22 / 5"
    and "totalReviews (getReviewStats e d userId) = 5"
    and "ratingDistribution (getReviewStats e d userId) =
           \<lparr> fiveStar = 3, fourStar = 1, threeStar = 1, twoStar = 0, oneStar = 0 \<rparr>"
proof -
  let ?rs = "received d userId"
  from mset_eq_stats(2)[OF m] have len: "length ?rs = 5" by simp
  then have ne: "?rs \<noteq> []" by auto
  from mset_eq_stats(1)[OF m] have sum: "sum_list (map rating ?rs) = 22" by simp
  have mean: "mean (map rating ?rs) = 22 / 5"
    using len ne sum by (simp add: mean_def)
  have sc: "star_count n ?rs = length (filter (\<lambda>x. x = n) [5, 5, 4, 3, 5])" for n
    unfolding star_count_map by (rule mset_eq_stats(3)[OF m])
  note st = getReviewStats_nonempty[OF assms(1) refl ne]
  show "averageRating (getReviewStats e d userId) = 22 / 5"
    by (simp add: st mean Math_round_44)
  show "totalReviews (getReviewStats e d userId) = 5"
    by (simp add: st len)
  show "ratingDistribution (getReviewStats e d userId) =
           \<lparr> fiveStar = 3, fourStar = 1, threeStar = 1, twoStar = 0, oneStar = 0 \<rparr>"
    by (simp add: st sc)
qed

lemma category_rounded:
  "rounded_half_up_1dp (mean (List.map_filter f (received d userId)))
     (if received d userId = [] then 0
      else of_int (Math_round (mean (List.map_filter f (received d userId)) * 10)) / 10)"
proof (cases "received d userId = []")
  case True
  then show ?thesis
    by (simp add: List.map_filter_simps mean_def rounded_half_up_1dp_def)
next
  case False
  then show ?thesis by (simp add: Math_round_rounds)
qed

lemma stats_rounded:
  assumes "\<not> aggregate_fails e"
  shows "rounded_half_up_1dp (mean (map rating (received d userId)))
           (averageRating (getReviewStats e d userId))"
    and "rounded_half_up_1dp (mean (List.map_filter communication (received d userId)))
           (ca_communication (categoryAverages (getReviewStats e d userId)))"
    and "rounded_half_up_1dp (mean (List.map_filter qualityOfWork (received d userId)))
           (ca_qualityOfWork (categoryAverages (getReviewStats e d userId)))"
    and "rounded_half_up_1dp (mean (List.map_filter valueForMoney (received d userId)))
           (ca_valueForMoney (categoryAverages (getReviewStats e d userId)))"
    and "rounded_half_up_1dp (mean (List.map_filter expertise (received d userId)))
           (ca_expertise (categoryAverages (getReviewStats e d userId)))"
    and "rounded_half_up_1dp (mean (List.map_filter professionalism (received d userId)))
           (ca_professionalism (categoryAverages (getReviewStats e d userId)))"
proof -
  note emp = getReviewStats_empty[where e = e and d = d and userId = userId]
  note nonemp = getReviewStats_nonempty[OF assms refl, where d = d and userId = userId]
  show "rounded_half_up_1dp (mean (map rating (received d userId)))
           (averageRating (getReviewStats e d userId))"
  proof (cases "received d userId = []")
    case True
    then show ?thesis using emp
      by (simp add: zero_stats_def mean_def rounded_half_up_1dp_def)
  next
    case False
    then show ?thesis using nonemp Math_round_rounds by simp
  qed
  show "rounded_half_up_1dp (mean (List.map_filter communication (received d userId)))
           (ca_communication (categoryAverages (getReviewStats e d userId)))"
    using category_rounded[of communication d userId] emp nonemp
    by (cases "received d userId = []") (simp_all add: zero_stats_def)
  show "rounded_half_up_1dp (mean (List.map_filter qualityOfWork (received d userId)))
           (ca_qualityOfWork (categoryAverages (getReviewStats e d userId)))"
    using category_rounded[of qualityOfWork d userId] emp nonemp
    by (cases "received d userId = []") (simp_all add: zero_stats_def)
  show "rounded_half_up_1dp (mean (List.map_filter valueForMoney (received d userId)))
           (ca_valueForMoney (categoryAverages (getReviewStats e d userId)))"
    using category_rounded[of valueForMoney d userId] emp nonemp
    by (cases "received d userId = []") (simp_all add: zero_stats_def)
  show "rounded_half_up_1dp (mean (List.map_filter expertise (received d userId)))
           (ca_expertise (categoryAverages (getReviewStats e d userId)))"
    using category_rounded[of expertise d userId] emp nonemp
    by (cases "received d userId = []") (simp_all add: zero_stats_def)
  show "rounded_half_up_1dp (mean (List.map_filter professionalism (received d userId)))
           (ca_professionalism (categoryAverages (getReviewStats e d userId)))"
    using category_rounded[of professionalism d userId] emp nonemp
    by (cases "received d userId = []") (simp_all add: zero_stats_def)
qed

text \<open>
  C2. If the ratings of the reviews a user received are 5, 5, 4, 3, 5 in any order,
  \<open>getReviewStats\<close> returns the average 4.4 (22/5), the total 5 and the distribution
  3, 1, 1, 0, 0 from five stars down to one. Whatever the store, the average rating and the
  five category averages it returns are the exact averages (of the scores present)
  rounded to one decimal place, a half going up. For a user with no review the result is
  \<open>zero_stats\<close>, as it is when the aggregation throws: the function has no error result.
  Averages are exact rationals here, where the source computes in doubles.
\<close>

theorem getReviewStats_example_rounding_zero:
  "(\<not> aggregate_fails e \<and> mset (map rating (received d userId)) = mset [5, 5, 4, 3, 5] \<longrightarrow>
      averageRating (getReviewStats e d userId) = 22 / 5
      \<and> totalReviews (getReviewStats e d userId) = 5
      \<and> ratingDistribution (getReviewStats e d userId) =
           \<lparr> fiveStar = 3, fourStar = 1, threeStar = 1, twoStar = 0, oneStar = 0 \<rparr>)
   \<and> (\<not> aggregate_fails e \<longrightarrow>
      rounded_half_up_1dp (mean (map rating (received d userId)))
        (averageRating (getReviewStats e d userId))
      \<and> rounded_half_up_1dp (mean (List.map_filter communication (received d userId)))
        (ca_communication (categoryAverages (getReviewStats e d userId)))
      \<and> rounded_half_up_1dp (mean (List.map_filter qualityOfWork (received d userId)))
        (ca_qualityOfWork (categoryAverages (getReviewStats e d userId)))
      \<and> rounded_half_up_1dp (mean (List.map_filter valueForMoney (received d userId)))
        (ca_valueForMoney (categoryAverages (getReviewStats e d userId)))
      \<and> rounded_half_up_1dp (mean (List.map_filter expertise (received d userId)))
        (ca_expertise (categoryAverages (getReviewStats e d userId)))
      \<and> rounded_half_up_1dp (mean (List.map_filter professionalism (received d userId)))
        (ca_professionalism (categoryAverages (getReviewStats e d userId))))
   \<and> (received d userId = [] \<longrightarrow> getReviewStats e d userId = zero_stats)
   \<and> (aggregate_fails e \<longrightarrow> getReviewStats e d userId = zero_stats)"
  using example_stats[of e d userId] stats_rounded[of e d userId]
    getReviewStats_empty[of e d userId]
  by blast

theorem getReviewStats_example_rounding_zero_witness:
  "map rating (received ex_stats_db 20) = [5, 5, 4, 3, 5]
   \<and> averageRating (getReviewStats ex_env ex_stats_db 20) = 22 / 5
   \<and> totalReviews (getReviewStats ex_env ex_stats_db 20) = 5
   \<and> ratingDistribution (getReviewStats ex_env ex_stats_db 20) =
        \<lparr> fiveStar = 3, fourStar = 1, threeStar = 1, twoStar = 0, oneStar = 0 \<rparr>
   \<and> mean (map rating (received ex_half_db 20)) = 17 / 4
   \<and> averageRating (getReviewStats ex_env ex_half_db 20) = 43 / 10
   \<and> rounded_half_up_1dp (17 / 4) (43 / 10)
   \<and> received ex_db 20 = []
   \<and> getReviewStats ex_env ex_db 20 = zero_stats
   \<and> getReviewStats (ex_env\<lparr>aggregate_fails := True\<rparr>) ex_stats_db 20 = zero_stats"
proof -
  have ok: "\<not> aggregate_fails ex_env" by (simp add: ex_env_def)
  have fails: "aggregate_fails (ex_env\<lparr>aggregate_fails := True\<rparr>)" by simp
  have rs: "map rating (received ex_stats_db 20) = [5, 5, 4, 3, 5]" by code_simp
  then have ms: "mset (map rating (received ex_stats_db 20)) = mset [5, 5, 4, 3, 5]" by simp
  have half: "mean (map rating (received ex_half_db 20)) = 17 / 4" by code_simp
  have avg_half: "averageRating (getReviewStats ex_env ex_half_db 20) = 43 / 10" by code_simp
  have none: "received ex_db 20 = []" by code_simp
  note a = getReviewStats_example_rounding_zero[of ex_env ex_stats_db 20]
  note b = getReviewStats_example_rounding_zero[of ex_env ex_half_db 20]
  note c = getReviewStats_example_rounding_zero[of ex_env ex_db 20]
  note f = getReviewStats_example_rounding_zero[of "ex_env\<lparr>aggregate_fails := True\<rparr>" ex_stats_db 20]
  from a ok ms have "averageRating (getReviewStats ex_env ex_stats_db 20) = 22 / 5
   \<and> totalReviews (getReviewStats ex_env ex_stats_db 20) = 5
   \<and> ratingDistribution (getReviewStats ex_env ex_stats_db 20) =
        \<lparr> fiveStar = 3, fourStar = 1, threeStar = 1, twoStar = 0, oneStar = 0 \<rparr>"
    by blast
  moreover from b ok have "rounded_half_up_1dp (mean (map rating (received ex_half_db 20)))
        (averageRating (getReviewStats ex_env ex_half_db 20))"
    by blast
  then have "rounded_half_up_1dp (17 / 4) (43 / 10)" by (simp only: half avg_half)
  moreover from c none have "getReviewStats ex_env ex_db 20 = zero_stats" by blast
  moreover from f fails
  have "getReviewStats (ex_env\<lparr>aggregate_fails := True\<rparr>) ex_stats_db 20 = zero_stats"
    by blast
  ultimately show ?thesis using rs half avg_half none by simp
qed

section \<open>Properties of markReviewAsHelpful\<close>

lemma find_rid: "find (\<lambda>x. rid x = i) xs = Some r \<Longrightarrow> rid r = i \<and> r \<in> set xs"
  by (induction xs) (auto split: if_splits)

lemma find_replace_first:
  "find (\<lambda>x. rid x = i) xs = Some r \<Longrightarrow> rid r' = i \<Longrightarrow>
   find (\<lambda>x. rid x = i) (replace_first r' xs) = Some r'"
  by (induction xs) (auto split: if_splits)

lemma found_rid: "Review_findById d i = Some r \<Longrightarrow> rid r = i"
  unfolding Review_findById_def by (rule find_rid[THEN conjunct1])

lemma find_after_save:
  assumes f: "Review_findById d i = Some r" and i: "rid r' = i"
  shows "Review_findById (d\<lparr>reviews := replace_first r' (reviews d)\<rparr>) i = Some r'"
proof -
  from f have "find (\<lambda>x. rid x = i) (reviews d) = Some r"
    by (simp only: Review_findById_def)
  from find_replace_first[OF this i]
  show ?thesis by (simp add: Review_findById_def)
qed

lemma Review_validate_votes [simp]:
  "Review_validate (r\<lparr>helpfulVotes := vs\<rparr>) = Review_validate r"
  by (simp add: Review_validate_def)

lemma filter_neq_absent: "u \<notin> set xs \<Longrightarrow> filter (\<lambda>x. x \<noteq> u) xs = xs"
  by (induction xs) auto

lemma length_filter_neq:
  "distinct xs \<Longrightarrow> u \<in> set xs \<Longrightarrow> Suc (length (filter (\<lambda>x. x \<noteq> u) xs)) = length xs"
  by (induction xs) (auto simp: filter_neq_absent)

lemma mark_present:
  assumes f: "Review_findById d i = Some r" and v: "Review_validate r"
    and p: "user_id u \<in> set (helpfulVotes r)"
  shows "markReviewAsHelpful e d u i =
     (SuccessResponse 200 ''Removed helpful mark from review''
        (HelpfulCount (length (filter (\<lambda>x. x \<noteq> user_id u) (helpfulVotes r)))),
      d\<lparr>reviews := replace_first
          (r\<lparr>helpfulVotes := filter (\<lambda>x. x \<noteq> user_id u) (helpfulVotes r)\<rparr>) (reviews d)\<rparr>)"
proof -
  have am: "list_ex (\<lambda>item. item = user_id u) (helpfulVotes r)"
    using p by (simp add: list_ex_iff)
  have sv: "Review_save d (r\<lparr>helpfulVotes := filter (\<lambda>x. x \<noteq> user_id u) (helpfulVotes r)\<rparr>)
     = Inr (d\<lparr>reviews := replace_first
          (r\<lparr>helpfulVotes := filter (\<lambda>x. x \<noteq> user_id u) (helpfulVotes r)\<rparr>) (reviews d)\<rparr>)"
    using v by (simp add: Review_save_def)
  show ?thesis
    apply (simp only: markReviewAsHelpful_def f option.case Let_def am if_True sv sum.case)
    apply simp
    done
qed

lemma mark_absent:
  assumes f: "Review_findById d i = Some r" and v: "Review_validate r"
    and p: "user_id u \<notin> set (helpfulVotes r)"
  shows "markReviewAsHelpful e d u i =
     (SuccessResponse 200 ''Marked review as helpful''
        (HelpfulCount (Suc (length (helpfulVotes r)))),
      d\<lparr>reviews := replace_first (r\<lparr>helpfulVotes := helpfulVotes r @ [user_id u]\<rparr>)
          (reviews d)\<rparr>)"
proof -
  have am: "list_ex (\<lambda>item. item = user_id u) (helpfulVotes r) = False"
    using p by (simp add: list_ex_iff)
  have sv: "Review_save d (r\<lparr>helpfulVotes := helpfulVotes r @ [user_id u]\<rparr>)
     = Inr (d\<lparr>reviews := replace_first
          (r\<lparr>helpfulVotes := helpfulVotes r @ [user_id u]\<rparr>) (reviews d)\<rparr>)"
    using v by (simp add: Review_save_def)
  show ?thesis
    apply (simp only: markReviewAsHelpful_def f option.case Let_def am if_False sv sum.case)
    apply simp
    done
qed

text \<open>One call on a stored review that passes validation.\<close>

lemma mark_once:
  assumes f: "Review_findById d i = Some r" and v: "Review_validate r"
  shows "snd (markReviewAsHelpful e d u i) =
           d\<lparr>reviews := replace_first
               (r\<lparr>helpfulVotes := toggled (user_id u) (helpfulVotes r)\<rparr>) (reviews d)\<rparr>"
    and "\<exists>m. fst (markReviewAsHelpful e d u i) =
           SuccessResponse 200 m (HelpfulCount (length (toggled (user_id u) (helpfulVotes r))))"
    and "Review_findById (snd (markReviewAsHelpful e d u i)) i =
           Some (r\<lparr>helpfulVotes := toggled (user_id u) (helpfulVotes r)\<rparr>)"
proof -
  show s: "snd (markReviewAsHelpful e d u i) =
           d\<lparr>reviews := replace_first
               (r\<lparr>helpfulVotes := toggled (user_id u) (helpfulVotes r)\<rparr>) (reviews d)\<rparr>"
    using mark_present[OF f v, of u e] mark_absent[OF f v, of u e]
    by (cases "user_id u \<in> set (helpfulVotes r)") (simp_all add: toggled_def)
  show "\<exists>m. fst (markReviewAsHelpful e d u i) =
           SuccessResponse 200 m (HelpfulCount (length (toggled (user_id u) (helpfulVotes r))))"
    using mark_present[OF f v, of u e] mark_absent[OF f v, of u e]
    by (cases "user_id u \<in> set (helpfulVotes r)") (simp_all add: toggled_def)
  show "Review_findById (snd (markReviewAsHelpful e d u i)) i =
           Some (r\<lparr>helpfulVotes := toggled (user_id u) (helpfulVotes r)\<rparr>)"
    unfolding s by (rule find_after_save[OF f]) (simp add: found_rid[OF f])
qed

lemma toggled_twice:
  assumes "distinct vs"
  shows "set (toggled u (toggled u vs)) = set vs"
    and "length (toggled u (toggled u vs)) = length vs"
proof -
  show "set (toggled u (toggled u vs)) = set vs"
    by (auto simp: toggled_def filter_neq_absent)
  show "length (toggled u (toggled u vs)) = length vs"
    using length_filter_neq[OF assms, of u]
    by (auto simp: toggled_def filter_neq_absent)
qed

text \<open>
  C9. On a stored review that passes the schema's validation and in whose \<open>helpfulVotes\<close>
  no user occurs twice (both hold of every review in a store that the operations built),
  two calls of \<open>markReviewAsHelpful\<close> by the same user, one after the other, both succeed;
  the first removes the user from the votes if present and adds the user otherwise, the
  second returns the original count, and the review stored afterwards is the original but
  for the order of its votes: the same set of voters, the same number.
\<close>

theorem markReviewAsHelpful_twice:
  assumes f: "Review_findById d i = Some r" and v: "Review_validate r"
    and dist: "distinct (helpfulVotes r)"
  shows "\<exists>m1 m2 r1 r2.
      fst (markReviewAsHelpful e d u i) =
        SuccessResponse 200 m1 (HelpfulCount (length (helpfulVotes r1)))
    \<and> Review_findById (snd (markReviewAsHelpful e d u i)) i = Some r1
    \<and> helpfulVotes r1 =
        (if user_id u \<in> set (helpfulVotes r)
         then filter (\<lambda>x. x \<noteq> user_id u) (helpfulVotes r)
         else helpfulVotes r @ [user_id u])
    \<and> fst (markReviewAsHelpful e (snd (markReviewAsHelpful e d u i)) u i) =
        SuccessResponse 200 m2 (HelpfulCount (length (helpfulVotes r)))
    \<and> Review_findById (snd (markReviewAsHelpful e (snd (markReviewAsHelpful e d u i)) u i)) i
        = Some r2
    \<and> set (helpfulVotes r2) = set (helpfulVotes r)
    \<and> length (helpfulVotes r2) = length (helpfulVotes r)
    \<and> r2 = r\<lparr>helpfulVotes := helpfulVotes r2\<rparr>"
proof -
  let ?d1 = "snd (markReviewAsHelpful e d u i)"
  let ?r1 = "r\<lparr>helpfulVotes := toggled (user_id u) (helpfulVotes r)\<rparr>"
  let ?r2 = "?r1\<lparr>helpfulVotes := toggled (user_id u) (helpfulVotes ?r1)\<rparr>"
  from mark_once[OF f v, of e u] obtain m1 where
    c1: "fst (markReviewAsHelpful e d u i) =
           SuccessResponse 200 m1 (HelpfulCount (length (toggled (user_id u) (helpfulVotes r))))"
    and f1: "Review_findById ?d1 i = Some ?r1"
    by blast
  from v have v1: "Review_validate ?r1" by simp
  from mark_once[OF f1 v1, of e u] obtain m2 where
    c2: "fst (markReviewAsHelpful e ?d1 u i) =
           SuccessResponse 200 m2
             (HelpfulCount (length (toggled (user_id u) (helpfulVotes ?r1))))"
    and f2: "Review_findById (snd (markReviewAsHelpful e ?d1 u i)) i = Some ?r2"
    by blast
  have hv: "helpfulVotes ?r2 = toggled (user_id u) (toggled (user_id u) (helpfulVotes r))"
    by simp
  note tw = toggled_twice[OF dist, of "user_id u"]
  have g1: "fst (markReviewAsHelpful e d u i) =
        SuccessResponse 200 m1 (HelpfulCount (length (helpfulVotes ?r1)))"
    using c1 by simp
  have g3: "helpfulVotes ?r1 =
        (if user_id u \<in> set (helpfulVotes r)
         then filter (\<lambda>x. x \<noteq> user_id u) (helpfulVotes r)
         else helpfulVotes r @ [user_id u])"
    by (simp add: toggled_def)
  have g4: "fst (markReviewAsHelpful e ?d1 u i) =
        SuccessResponse 200 m2 (HelpfulCount (length (helpfulVotes r)))"
    using c2 tw(2) by simp
  have g6: "set (helpfulVotes ?r2) = set (helpfulVotes r)"
    unfolding hv by (rule tw(1))
  have g7: "length (helpfulVotes ?r2) = length (helpfulVotes r)"
    unfolding hv by (rule tw(2))
  have g8: "?r2 = r\<lparr>helpfulVotes := helpfulVotes ?r2\<rparr>" by simp
  from g1 f1 g3 g4 f2 g6 g7 g8 show ?thesis by blast
qed

theorem markReviewAsHelpful_twice_witness:
  "Review_findById ex_voted_db 100 = Some (ex_review\<lparr>helpfulVotes := [20, 30]\<rparr>)
   \<and> Review_validate (ex_review\<lparr>helpfulVotes := [20, 30]\<rparr>)
   \<and> distinct (helpfulVotes (ex_review\<lparr>helpfulVotes := [20, 30]\<rparr>))
   \<and> markReviewAsHelpful ex_env ex_voted_db ex_freelancer 100 =
       (SuccessResponse 200 ''Removed helpful mark from review'' (HelpfulCount 1),
        ex_voted_db\<lparr>reviews := [ex_review\<lparr>helpfulVotes := [30]\<rparr>]\<rparr>)
   \<and> markReviewAsHelpful ex_env (ex_voted_db\<lparr>reviews := [ex_review\<lparr>helpfulVotes := [30]\<rparr>]\<rparr>)
         ex_freelancer 100 =
       (SuccessResponse 200 ''Marked review as helpful'' (HelpfulCount 2),
        ex_voted_db\<lparr>reviews := [ex_review\<lparr>helpfulVotes := [30, 20]\<rparr>]\<rparr>)
   \<and> (\<exists>m2 r2.
        fst (markReviewAsHelpful ex_env
               (snd (markReviewAsHelpful ex_env ex_voted_db ex_freelancer 100)) ex_freelancer 100)
          = SuccessResponse 200 m2 (HelpfulCount 2)
        \<and> Review_findById
             (snd (markReviewAsHelpful ex_env
                (snd (markReviewAsHelpful ex_env ex_voted_db ex_freelancer 100))
                ex_freelancer 100)) 100 = Some r2
        \<and> set (helpfulVotes r2) = {20, 30} \<and> length (helpfulVotes r2) = 2)"
proof -
  have f: "Review_findById ex_voted_db 100 = Some (ex_review\<lparr>helpfulVotes := [20, 30]\<rparr>)"
    by code_simp
  have v: "Review_validate (ex_review\<lparr>helpfulVotes := [20, 30]\<rparr>)"
    by code_simp
  have dist: "distinct (helpfulVotes (ex_review\<lparr>helpfulVotes := [20, 30]\<rparr>))"
    by simp
  have c1: "markReviewAsHelpful ex_env ex_voted_db ex_freelancer 100 =
       (SuccessResponse 200 ''Removed helpful mark from review'' (HelpfulCount 1),
        ex_voted_db\<lparr>reviews := [ex_review\<lparr>helpfulVotes := [30]\<rparr>]\<rparr>)"
    by code_simp
  have c2: "markReviewAsHelpful ex_env
         (ex_voted_db\<lparr>reviews := [ex_review\<lparr>helpfulVotes := [30]\<rparr>]\<rparr>) ex_freelancer 100 =
       (SuccessResponse 200 ''Marked review as helpful'' (HelpfulCount 2),
        ex_voted_db\<lparr>reviews := [ex_review\<lparr>helpfulVotes := [30, 20]\<rparr>]\<rparr>)"
    by code_simp
  from markReviewAsHelpful_twice[OF f v dist, of ex_env ex_freelancer]
  obtain m2 r2 where
    "fst (markReviewAsHelpful ex_env
               (snd (markReviewAsHelpful ex_env ex_voted_db ex_freelancer 100)) ex_freelancer 100)
          = SuccessResponse 200 m2
              (HelpfulCount (length (helpfulVotes (ex_review\<lparr>helpfulVotes := [20, 30]\<rparr>))))"
    and "Review_findById
             (snd (markReviewAsHelpful ex_env
                (snd (markReviewAsHelpful ex_env ex_voted_db ex_freelancer 100))
                ex_freelancer 100)) 100 = Some r2"
    and "set (helpfulVotes r2) = set (helpfulVotes (ex_review\<lparr>helpfulVotes := [20, 30]\<rparr>))"
    and "length (helpfulVotes r2) = length (helpfulVotes (ex_review\<lparr>helpfulVotes := [20, 30]\<rparr>))"
    by blast
  then have "\<exists>m2 r2.
        fst (markReviewAsHelpful ex_env
               (snd (markReviewAsHelpful ex_env ex_voted_db ex_freelancer 100)) ex_freelancer 100)
          = SuccessResponse 200 m2 (HelpfulCount 2)
        \<and> Review_findById
             (snd (markReviewAsHelpful ex_env
                (snd (markReviewAsHelpful ex_env ex_voted_db ex_freelancer 100))
                ex_freelancer 100)) 100 = Some r2
        \<and> set (helpfulVotes r2) = {20, 30} \<and> length (helpfulVotes r2) = 2"
    by (intro exI[of _ m2] exI[of _ r2]) simp
  with f v dist c1 c2 show ?thesis by blast
qed

section \<open>Properties of getUserReviews\<close>








section \<open>Properties of handleReportedReview\<close>

lemma handle_invalid_action:
  assumes "action \<noteq> JStr ''approve''" "action \<noteq> JStr ''reject''" "action \<noteq> JStr ''delete''"
  shows "handleReportedReview e d u i action adminNotes =
     (ErrorResponse 400 ''Invalid action. Must be approve, reject, or delete.'', d)"
  unfolding handleReportedReview_def using assms by (simp only: simp_thms if_True)

lemma handle_valid_action:
  assumes "action = JStr ''approve'' \<or> action = JStr ''reject'' \<or> action = JStr ''delete''"
  shows "(action \<noteq> JStr ''approve'' \<and> action \<noteq> JStr ''reject'' \<and> action \<noteq> JStr ''delete'') = False"
  using assms by blast

lemma handle_missing:
  assumes "action = JStr ''approve'' \<or> action = JStr ''reject'' \<or> action = JStr ''delete''"
    and "Review_findById d i = None"
  shows "handleReportedReview e d u i action adminNotes = (ErrorResponse 404 ''Review not found'', d)"
  unfolding handleReportedReview_def
  by (simp only: handle_valid_action[OF assms(1)] if_False assms(2) option.case)

lemma handle_not_reported:
  assumes "action = JStr ''approve'' \<or> action = JStr ''reject'' \<or> action = JStr ''delete''"
    and "Review_findById d i = Some r" and "\<not> report_active r"
  shows "handleReportedReview e d u i action adminNotes =
     (ErrorResponse 400 ''This review has not been reported'', d)"
  unfolding handleReportedReview_def
  by (simp only: handle_valid_action[OF assms(1)] if_False assms(2) option.case assms(3)
        simp_thms if_True)

text \<open>
  C7, as the code has it. For an action other than \<open>approve\<close>, \<open>reject\<close> and \<open>delete\<close>
  the handler answers 400 ``Invalid action''. For one of the three and a review that does
  not exist it answers 404; for one of the three and a review that exists but carries no
  active report (\<open>review.reported\<close> unset, or its \<open>isReported\<close> false) it answers 400
  ``This review has not been reported'', not the 404 of a missing review. In each case the
  store is returned as it was. The last part is the case of a stored review whose
  \<open>isReported\<close> is false.
\<close>

theorem handleReportedReview_rejections:
  "(action \<noteq> JStr ''approve'' \<and> action \<noteq> JStr ''reject'' \<and> action \<noteq> JStr ''delete'' \<longrightarrow>
      handleReportedReview e d u i action adminNotes =
        (ErrorResponse 400 ''Invalid action. Must be approve, reject, or delete.'', d))
   \<and> ((action = JStr ''approve'' \<or> action = JStr ''reject'' \<or> action = JStr ''delete'')
       \<and> Review_findById d i = None \<longrightarrow>
      handleReportedReview e d u i action adminNotes = (ErrorResponse 404 ''Review not found'', d))
   \<and> ((action = JStr ''approve'' \<or> action = JStr ''reject'' \<or> action = JStr ''delete'')
       \<and> Review_findById d i = Some r \<and> \<not> report_active r \<longrightarrow>
      handleReportedReview e d u i action adminNotes =
        (ErrorResponse 400 ''This review has not been reported'', d))
   \<and> ((action = JStr ''approve'' \<or> action = JStr ''reject'' \<or> action = JStr ''delete'')
       \<and> Review_findById d i = Some r \<and> \<not> isReported r \<longrightarrow>
      handleReportedReview e d u i action adminNotes =
        (ErrorResponse 400 ''This review has not been reported'', d))"
  using handle_invalid_action[of action e d u i adminNotes] handle_missing[of action d i e u adminNotes]
    handle_not_reported[of action d i r e u adminNotes]
  by (auto simp: report_active_def review_reported_def)

theorem handleReportedReview_rejections_witness:
  "handleReportedReview ex_env ex_db1 ex_admin 100 (JStr ''hide'') JUndefined =
     (ErrorResponse 400 ''Invalid action. Must be approve, reject, or delete.'', ex_db1)
   \<and> handleReportedReview ex_env ex_db1 ex_admin 7 (JStr ''approve'') JUndefined =
     (ErrorResponse 404 ''Review not found'', ex_db1)
   \<and> Review_findById ex_db1 100 = Some ex_review
   \<and> \<not> isReported ex_review
   \<and> handleReportedReview ex_env ex_db1 ex_admin 100 (JStr ''reject'') JUndefined =
     (ErrorResponse 400 ''This review has not been reported'', ex_db1)"
proof -
  have a1: "JStr ''hide'' \<noteq> JStr ''approve'' \<and> JStr ''hide'' \<noteq> JStr ''reject''
      \<and> JStr ''hide'' \<noteq> JStr ''delete''"
    by simp
  have a2: "(JStr ''approve'' = JStr ''approve'' \<or> JStr ''approve'' = JStr ''reject''
      \<or> JStr ''approve'' = JStr ''delete'') \<and> Review_findById ex_db1 7 = None"
    by code_simp
  have f: "Review_findById ex_db1 100 = Some ex_review" by code_simp
  have n: "\<not> isReported ex_review"
    by (simp add: ex_review_def)
  have a3: "JStr ''reject'' = JStr ''approve'' \<or> JStr ''reject'' = JStr ''reject''
      \<or> JStr ''reject'' = JStr ''delete''"
    by simp
  have c1: "handleReportedReview ex_env ex_db1 ex_admin 100 (JStr ''hide'') JUndefined =
     (ErrorResponse 400 ''Invalid action. Must be approve, reject, or delete.'', ex_db1)"
    using handleReportedReview_rejections
      [where action = "JStr ''hide''" and e = ex_env and d = ex_db1 and u = ex_admin
         and i = 100 and adminNotes = JUndefined] a1
    by blast
  have c2: "handleReportedReview ex_env ex_db1 ex_admin 7 (JStr ''approve'') JUndefined =
     (ErrorResponse 404 ''Review not found'', ex_db1)"
    using handleReportedReview_rejections
      [where action = "JStr ''approve''" and e = ex_env and d = ex_db1 and u = ex_admin
         and i = 7 and adminNotes = JUndefined] a2
    by blast
  have c3: "handleReportedReview ex_env ex_db1 ex_admin 100 (JStr ''reject'') JUndefined =
     (ErrorResponse 400 ''This review has not been reported'', ex_db1)"
    using handleReportedReview_rejections
      [where action = "JStr ''reject''" and e = ex_env and d = ex_db1 and u = ex_admin
         and i = 100 and adminNotes = JUndefined and r = ex_review] a3 f n
    by blast
  from c1 c2 f n c3 show ?thesis by blast
qed

text \<open>
  C7 as the spec states it fails: the review of the scenario exists and was never reported,
  and the answer to \<open>approve\<close> is the 400 response, not NotFound.
\<close>

theorem handleReportedReview_not_reported_counterexample:
  "handleReportedReview ex_env ex_db1 ex_admin 100 (JStr ''approve'') JUndefined =
     (ErrorResponse 400 ''This review has not been reported'', ex_db1)"
  by code_simp

lemma ex_report:
  "reportReview ex_env ex_db1 7 ex_freelancer 100 (JStr ''spam'') =
     (SuccessResponse 200 ''Review reported successfully. Our team will review it shortly.'' NoData,
      ex_reported_db)"
  by code_simp

text \<open>
  C6 on the code. The recipient reports the review of the scenario through
  \<open>reportReview\<close>, which sets \<open>isReported\<close>; the stored review then carries an active
  report. \<open>handleReportedReview\<close> reads \<open>review.reported.isReported\<close>, a path the document
  does not have, so \<open>delete\<close> answers 400 ``This review has not been reported'' and the
  review stays stored, and \<open>reject\<close> and \<open>approve\<close> answer the same and clear nothing.
\<close>

theorem handleReportedReview_delete_keeps_reported_review:
  "reportReview ex_env ex_db1 7 ex_freelancer 100 (JStr ''spam'') =
     (SuccessResponse 200 ''Review reported successfully. Our team will review it shortly.'' NoData,
      ex_reported_db)
   \<and> Review_findById ex_reported_db 100 = Some ex_reported_review
   \<and> isReported ex_reported_review
   \<and> handleReportedReview ex_env ex_reported_db ex_admin 100 (JStr ''delete'') JUndefined =
       (ErrorResponse 400 ''This review has not been reported'', ex_reported_db)
   \<and> handleReportedReview ex_env ex_reported_db ex_admin 100 (JStr ''reject'') JUndefined =
       (ErrorResponse 400 ''This review has not been reported'', ex_reported_db)
   \<and> handleReportedReview ex_env ex_reported_db ex_admin 100 (JStr ''approve'') JUndefined =
       (ErrorResponse 400 ''This review has not been reported'', ex_reported_db)"
  by code_simp

section \<open>What each operation does to the stored reviews\<close>

lemma Notification_create_reviews:
  "Notification_create e d n = Inr d1 \<Longrightarrow> reviews d1 = reviews d \<and> next_oid d1 = next_oid d"
  by (auto simp: Notification_create_def split: if_splits)

lemma notify_each_reviews:
  "reviews (snd (notify_each e d ns)) = reviews d \<and> next_oid (snd (notify_each e d ns)) = next_oid d"
proof (induction ns arbitrary: d)
  case Nil
  show ?case by simp
next
  case (Cons n ns)
  show ?case
  proof (cases "Notification_create e d n")
    case (Inl err)
    then show ?thesis by simp
  next
    case (Inr d1)
    with Cons[of d1] Notification_create_reviews[OF Inr] show ?thesis by simp
  qed
qed

lemma createReview_reviews:
  "(reviews (snd (createReview e d now u b)) = reviews d
      \<and> next_oid (snd (createReview e d now u b)) = next_oid d)
   \<or> (\<exists>r. rid r = next_oid d \<and> reviews (snd (createReview e d now u b)) = reviews d @ [r]
        \<and> next_oid (snd (createReview e d now u b)) = Suc (next_oid d)
        \<and> Review_validate r \<and> helpfulVotes r = []
        \<and> \<not> list_ex (same_triple (job r) (reviewer r) (recipient r)) (reviews d))"
proof (cases "createReview_checks e d u b")
  case (Inl resp)
  then show ?thesis by (simp add: createReview_def createReview_race_def)
next
  case (Inr x)
  obtain j rt where x: "x = (j, rt)" by (cases x)
  with Inr have c: "createReview e d now u b = createReview_insert e d now u b j rt"
    by (simp add: createReview_eq_checks_Inr)
  show ?thesis
  proof (cases "Review_create d now (new_review_of u b rt)")
    case (Inl err)
    then have "snd (createReview_insert e d now u b j rt) = d"
      by (simp add: createReview_insert_def split: option.splits)
    with c show ?thesis by simp
  next
    case (Inr y)
    obtain r d1 where y: "y = (r, d1)" by (cases y)
    with Inr have rc: "Review_create d now (new_review_of u b rt) = Inr (r, d1)" by simp
    then have cr: "cast_review (next_oid d) now (new_review_of u b rt) = Some r"
      and v: "Review_validate r"
      and nd: "\<not> list_ex (same_triple (job r) (reviewer r) (recipient r)) (reviews d)"
      and d1: "d1 = d\<lparr>reviews := reviews d @ [r], next_oid := Suc (next_oid d)\<rparr>"
      by (simp_all add: Review_create_Inr_iff)
    have "reviews (snd (createReview_insert e d now u b j rt)) = reviews d @ [r]
        \<and> next_oid (snd (createReview_insert e d now u b j rt)) = Suc (next_oid d)"
      using rc d1 by (simp add: createReview_insert_def Notification_create_def)
    with c cast_review_Some[OF cr] v nd show ?thesis by auto
  qed
qed

lemma Notification_create_cases:
  "(\<exists>err. Notification_create e d n = Inl err) \<or>
   (\<exists>d1. Notification_create e d n = Inr d1 \<and> reviews d1 = reviews d \<and> next_oid d1 = next_oid d)"
  by (simp add: Notification_create_def)

lemma assign_rating_Inr: "assign_rating v r = Inr r1 \<Longrightarrow> r1 = r\<lparr>rating := rating r1\<rparr>"
  by (auto simp: assign_rating_def split: if_splits number.splits)

lemma assign_isPublic_Inr: "assign_isPublic v r = Inr r1 \<Longrightarrow> r1 = r\<lparr>isPublic := isPublic r1\<rparr>"
  by (auto simp: assign_isPublic_def split: if_splits sum.splits)

lemma Review_save_Inr:
  "Review_save d r = Inr d1 \<Longrightarrow>
   Review_validate r \<and> reviews d1 = replace_first r (reviews d) \<and> next_oid d1 = next_oid d"
  by (auto simp: Review_save_def split: if_splits)

lemma updateReview_reviews:
  "(reviews (snd (updateReview e d t u j b)) = reviews d
    \<or> (\<exists>r0 r2. Review_findById d j = Some r0 \<and> reviewer r0 = user_id u \<and> \<not> createdAt r0 < t
          \<and> Review_validate r2 \<and> r2 = r0\<lparr>rating := rating r2, isPublic := isPublic r2\<rparr>
          \<and> reviews (snd (updateReview e d t u j b)) = replace_first r2 (reviews d)))
   \<and> next_oid (snd (updateReview e d t u j b)) = next_oid d"
proof (cases "Review_findById d j")
  case None
  then show ?thesis by (simp add: updateReview_def)
next
  case (Some r0)
  show ?thesis
  proof (cases "reviewer r0 \<noteq> user_id u \<or> createdAt r0 < t
      \<or> truthy (ub_communication b) \<or> truthy (ub_quality b) \<or> truthy (ub_expertise b)
      \<or> truthy (ub_deadlineAdherence b) \<or> truthy (ub_overallExperience b)")
    case True
    with Some show ?thesis by (auto simp: updateReview_def)
  next
    case False
    then have guards: "reviewer r0 = user_id u" "\<not> createdAt r0 < t"
      "\<not> (truthy (ub_communication b) \<or> truthy (ub_quality b) \<or> truthy (ub_expertise b)
      \<or> truthy (ub_deadlineAdherence b) \<or> truthy (ub_overallExperience b))"
      by auto
    have unf: "updateReview e d t u j b =
        (case assign_rating (ub_rating b) r0 of
               Inl err \<Rightarrow> (ServerError err, d)
             | Inr r1 \<Rightarrow>
                (case assign_isPublic (ub_isPublic b) r1 of
                   Inl err \<Rightarrow> (ServerError err, d)
                 | Inr r2 \<Rightarrow>
                    (case Review_save d r2 of
                       Inl err \<Rightarrow> (ServerError err, d)
                     | Inr d1 \<Rightarrow>
                        (case Notification_create e d1 (review_updated_notification u r2) of
                           Inl err \<Rightarrow> (ServerError err, d1)
                         | Inr d2 \<Rightarrow>
                             (SuccessResponse 200 ''Review updated successfully''
                                (ReviewData r2), d2)))))"
      unfolding updateReview_def
      by (simp only: Some option.case guards simp_thms if_False if_True)
    show ?thesis
    proof (cases "assign_rating (ub_rating b) r0")
      case (Inl err)
      with unf show ?thesis by simp
    next
      case r1: (Inr r1)
      show ?thesis
      proof (cases "assign_isPublic (ub_isPublic b) r1")
        case (Inl err)
        with unf r1 show ?thesis by simp
      next
        case r2: (Inr r2)
        from assign_rating_Inr[OF r1] assign_isPublic_Inr[OF r2]
        have eq: "r2 = r0\<lparr>rating := rating r2, isPublic := isPublic r2\<rparr>"
          by (metis (no_types) review.select_convs(5) review.surjective review.update_convs(5) review.update_convs(7))
        show ?thesis
        proof (cases "Review_save d r2")
          case (Inl err)
          with unf r1 r2 show ?thesis by simp
        next
          case sv: (Inr d1)
          note s = Review_save_Inr[OF sv]
          from Notification_create_cases[of e d1 "review_updated_notification u r2"]
          have "reviews (snd (updateReview e d t u j b)) = replace_first r2 (reviews d)
              \<and> next_oid (snd (updateReview e d t u j b)) = next_oid d"
            using unf r1 r2 sv s by auto
          with Some guards s eq show ?thesis by blast
        qed
      qed
    qed
  qed
qed

lemma deleteReview_reviews:
  "(reviews (snd (deleteReview e d u j)) = reviews d
    \<or> (\<exists>r0. Review_findById d j = Some r0 \<and> (reviewer r0 = user_id u \<or> role u = ''admin'')
          \<and> reviews (snd (deleteReview e d u j)) = delete_first j (reviews d)))
   \<and> next_oid (snd (deleteReview e d u j)) = next_oid d"
  by (cases "Review_findById d j") (auto simp: deleteReview_def Review_delete_def)

lemma reportReview_reviews:
  "(reviews (snd (reportReview e d now u j reason)) = reviews d
    \<or> (\<exists>r0 r2. Review_findById d j = Some r0 \<and> recipient r0 = user_id u
          \<and> Review_validate r2
          \<and> r2 = r0\<lparr>isReported := isReported r2, reportReason := reportReason r2,
                     reportedBy := reportedBy r2, reportedAt := reportedAt r2\<rparr>
          \<and> reviews (snd (reportReview e d now u j reason)) = replace_first r2 (reviews d)))
   \<and> next_oid (snd (reportReview e d now u j reason)) = next_oid d"
proof (cases "\<not> truthy reason")
  case True
  then show ?thesis by (simp add: reportReview_def)
next
  case tr: False
  show ?thesis
  proof (cases "Review_findById d j")
    case None
    with tr show ?thesis by (simp add: reportReview_def)
  next
    case (Some r0)
    show ?thesis
    proof (cases "recipient r0 \<noteq> user_id u")
      case True
      with tr Some show ?thesis by (simp add: reportReview_def)
    next
      case False
      let ?r1 = "r0\<lparr> isReported := True,
                          reportReason := map_option trim (castString reason),
                          reportedBy := Some (user_id u),
                          reportedAt := Some now \<rparr>"
      let ?ns = "map (review_reported_notification u reason ?r1)
                   (filter (\<lambda>a. role a = ''admin'') (users e))"
      have unf: "reportReview e d now u j reason =
          (case Review_save d ?r1 of
                     Inl err \<Rightarrow> (ServerError err, d)
                   | Inr d1 \<Rightarrow>
                       (case notify_each e d1 ?ns of
                             (Some err, d2) \<Rightarrow> (ServerError err, d2)
                           | (None, d2) \<Rightarrow>
                               (SuccessResponse 200
                                  ''Review reported successfully. Our team will review it shortly.''
                                  NoData, d2)))"
        unfolding reportReview_def Let_def
        using tr False by (simp only: Some option.case simp_thms if_False if_True)
      show ?thesis
      proof (cases "Review_save d ?r1")
        case (Inl err)
        with unf show ?thesis by simp
      next
        case sv: (Inr d1)
        note s = Review_save_Inr[OF sv]
        have sn: "snd (reportReview e d now u j reason) = snd (notify_each e d1 ?ns)"
          unfolding unf sv by (simp split: prod.splits option.splits)
        have "reviews (snd (reportReview e d now u j reason)) = replace_first ?r1 (reviews d)
              \<and> next_oid (snd (reportReview e d now u j reason)) = next_oid d"
          unfolding sn using notify_each_reviews[of e d1 ?ns] s by simp
        moreover have "?r1 = r0\<lparr>isReported := isReported ?r1, reportReason := reportReason ?r1,
                     reportedBy := reportedBy ?r1, reportedAt := reportedAt ?r1\<rparr>"
          by simp
        ultimately show ?thesis using Some False s by blast
      qed
    qed
  qed
qed

lemma markReviewAsHelpful_reviews:
  "(reviews (snd (markReviewAsHelpful e d u j)) = reviews d
    \<or> (\<exists>r0 r2. Review_findById d j = Some r0 \<and> Review_validate r2
          \<and> r2 = r0\<lparr>helpfulVotes := toggled (user_id u) (helpfulVotes r0)\<rparr>
          \<and> reviews (snd (markReviewAsHelpful e d u j)) = replace_first r2 (reviews d)))
   \<and> next_oid (snd (markReviewAsHelpful e d u j)) = next_oid d"
proof (cases "Review_findById d j")
  case None
  then show ?thesis by (simp add: markReviewAsHelpful_def)
next
  case (Some r0)
  show ?thesis
  proof (cases "Review_validate r0")
    case True
    from mark_once(1)[OF Some True, of e u] Some True show ?thesis
      by auto
  next
    case False
    then have "snd (markReviewAsHelpful e d u j) = d"
      unfolding markReviewAsHelpful_def Let_def
      by (simp add: Some Review_save_def)
    then show ?thesis by simp
  qed
qed

lemma snd_notify_case:
  "snd (case p of (Some err, d2) \<Rightarrow> (f err, d2) | (None, d2) \<Rightarrow> (g, d2)) = snd p"
  by (cases p; cases "fst p") auto

lemma reviews_after_notify:
  "reviews (snd (case notify_each e d1 ns of
       (Some err, d2) \<Rightarrow> (f err, d2) | (None, d2) \<Rightarrow> (g, d2))) = reviews d1"
  unfolding snd_notify_case using notify_each_reviews[of e d1 ns] by simp

lemma next_oid_after_notify:
  "next_oid (snd (case notify_each e d1 ns of
       (Some err, d2) \<Rightarrow> (f err, d2) | (None, d2) \<Rightarrow> (g, d2))) = next_oid d1"
  unfolding snd_notify_case using notify_each_reviews[of e d1 ns] by simp

lemma report_never_active: "\<not> report_active r"
  by (simp add: report_active_def review_reported_def)

lemma handleReportedReview_store:
  "snd (handleReportedReview e d u j action adminNotes) = d"
proof (cases "action = JStr ''approve'' \<or> action = JStr ''reject'' \<or> action = JStr ''delete''")
  case False
  then show ?thesis by (simp add: handle_invalid_action)
next
  case act: True
  show ?thesis
  proof (cases "Review_findById d j")
    case None
    from handle_missing[OF act None] show ?thesis by simp
  next
    case (Some r0)
    from handle_not_reported[OF act Some report_never_active] show ?thesis by simp
  qed
qed

section \<open>The frame of a stored review\<close>

lemma find_append_Some: "find P xs = Some r \<Longrightarrow> find P (xs @ ys) = Some r"
  by (induction xs) (auto split: if_splits)

lemma find_replace_first_other:
  "rid r2 \<noteq> i \<Longrightarrow> find (\<lambda>x. rid x = i) (replace_first r2 xs) = find (\<lambda>x. rid x = i) xs"
  by (induction xs) auto

lemma find_delete_first_other:
  "j \<noteq> i \<Longrightarrow> find (\<lambda>x. rid x = i) (delete_first j xs) = find (\<lambda>x. rid x = i) xs"
  by (induction xs) auto

lemma find_None_notin: "i \<notin> rid ` set xs \<Longrightarrow> find (\<lambda>x. rid x = i) xs = None"
  by (induction xs) auto

lemma find_delete_first_same:
  "distinct (map rid xs) \<Longrightarrow> find (\<lambda>x. rid x = i) (delete_first i xs) = None"
  by (induction xs) (auto simp: find_None_notin)

lemma frame_unchanged:
  "reviews d' = reviews d \<Longrightarrow> Review_findById d' i = Review_findById d i"
  by (simp add: Review_findById_def)

lemma frame_insert:
  "reviews d' = reviews d @ [x] \<Longrightarrow> Review_findById d i = Some r \<Longrightarrow>
   Review_findById d' i = Some r"
  by (simp add: Review_findById_def find_append_Some)

lemma frame_replace:
  assumes "reviews d' = replace_first r2 (reviews d)" and "Review_findById d j = Some r0"
    and "rid r2 = rid r0"
  shows "Review_findById d' i = (if i = j then Some r2 else Review_findById d i)"
proof -
  from assms(2) have j: "rid r0 = j" by (rule found_rid)
  show ?thesis
  proof (cases "i = j")
    case True
    with assms j show ?thesis
      by (simp add: Review_findById_def find_replace_first)
  next
    case False
    with assms j show ?thesis
      by (simp add: Review_findById_def find_replace_first_other)
  qed
qed

lemma frame_delete:
  assumes "reviews d' = delete_first j (reviews d)" and "distinct (map rid (reviews d))"
  shows "Review_findById d' i = (if i = j then None else Review_findById d i)"
  using assms
  by (simp add: Review_findById_def find_delete_first_same find_delete_first_other)

text \<open>
  C8, as the code has it. Let the ids of the stored reviews be distinct and \<open>r\<close> be the
  stored review with id \<open>i\<close>. After any one operation, if a review with id \<open>i\<close> is
  stored it has the id, job, reviewer and recipient of \<open>r\<close>, and it is \<open>r\<close> itself, or
  the operation is one of three on \<open>i\<close>: \<open>updateReview\<close> by the reviewer of \<open>r\<close>, not
  older than thirty days; \<open>markReviewAsHelpful\<close>, which toggled the caller in
  \<open>helpfulVotes\<close>; or \<open>reportReview\<close> by the recipient, which changed at most the four
  report fields. If no review with id \<open>i\<close> is stored any more, the operation was
  \<open>deleteReview\<close> by the reviewer of \<open>r\<close> or by a user of role \<open>admin\<close>.
\<close>

theorem review_frame:
  assumes ids: "distinct (map rid (reviews d))" and f: "Review_findById d i = Some r"
  shows "case Review_findById (snd (perform e d op)) i of
           None \<Rightarrow> may_delete op r
         | Some r' \<Rightarrow> same_references r r' \<and> (r' = r \<or> may_change op r r')"
proof -
  from f have ri: "rid r = i" by (rule found_rid)
  have same: "same_references r r" by (simp add: same_references_def)
  show ?thesis
  proof (cases op)
    case (CreateReview now u b)
    from createReview_reviews[of e d now u b]
    have "Review_findById (snd (createReview e d now u b)) i = Some r"
      using frame_unchanged[of "snd (createReview e d now u b)" d i] frame_insert[OF _ f] f
      by auto
    with CreateReview same show ?thesis by simp
  next
    case (UpdateReview t u j b)
    let ?d' = "snd (updateReview e d t u j b)"
    from updateReview_reviews[of e d t u j b]
    consider (same) "reviews ?d' = reviews d"
      | (upd) r0 r2 where "Review_findById d j = Some r0" "reviewer r0 = user_id u"
          "\<not> createdAt r0 < t" "r2 = r0\<lparr>rating := rating r2, isPublic := isPublic r2\<rparr>"
          "reviews ?d' = replace_first r2 (reviews d)"
      by blast
    then show ?thesis
    proof cases
      case same
      from frame_unchanged[OF same, of i] f UpdateReview \<open>same_references r r\<close>
      show ?thesis by simp
    next
      case upd
      have rr: "rid r2 = rid r0" by (subst upd(4)) simp
      note fr = frame_replace[OF upd(5) upd(1) rr, of i]
      show ?thesis
      proof (cases "i = j")
        case True
        with upd(1) f have r0: "r0 = r" by simp
        have sr: "same_references r r2"
          unfolding same_references_def r0[symmetric] by (subst upd(4), simp)+
        from True fr have "Review_findById ?d' i = Some r2" by simp
        with UpdateReview sr upd r0 ri True show ?thesis by simp
      next
        case False
        with fr f have "Review_findById ?d' i = Some r" by simp
        with UpdateReview same show ?thesis by simp
      qed
    qed
  next
    case (DeleteReview u j)
    let ?d' = "snd (deleteReview e d u j)"
    from deleteReview_reviews[of e d u j]
    consider (same) "reviews ?d' = reviews d"
      | (del) r0 where "Review_findById d j = Some r0"
          "reviewer r0 = user_id u \<or> role u = ''admin''"
          "reviews ?d' = delete_first j (reviews d)"
      by blast
    then show ?thesis
    proof cases
      case same
      from frame_unchanged[OF same, of i] f DeleteReview \<open>same_references r r\<close>
      show ?thesis by simp
    next
      case del
      note fr = frame_delete[OF del(3) ids, of i]
      show ?thesis
      proof (cases "i = j")
        case True
        with del(1) f have r0: "r0 = r" by simp
        from True fr have "Review_findById ?d' i = None" by simp
        with DeleteReview del r0 ri True show ?thesis by simp
      next
        case False
        with fr f have "Review_findById ?d' i = Some r" by simp
        with DeleteReview same show ?thesis by simp
      qed
    qed
  next
    case (ReportReview now u j reason)
    let ?d' = "snd (reportReview e d now u j reason)"
    from reportReview_reviews[of e d now u j reason]
    consider (same) "reviews ?d' = reviews d"
      | (upd) r0 r2 where "Review_findById d j = Some r0" "recipient r0 = user_id u"
          "r2 = r0\<lparr>isReported := isReported r2, reportReason := reportReason r2,
                     reportedBy := reportedBy r2, reportedAt := reportedAt r2\<rparr>"
          "reviews ?d' = replace_first r2 (reviews d)"
      by blast
    then show ?thesis
    proof cases
      case same
      from frame_unchanged[OF same, of i] f ReportReview \<open>same_references r r\<close>
      show ?thesis by simp
    next
      case upd
      have rr: "rid r2 = rid r0" by (subst upd(3)) simp
      note fr = frame_replace[OF upd(4) upd(1) rr, of i]
      show ?thesis
      proof (cases "i = j")
        case True
        with upd(1) f have r0: "r0 = r" by simp
        have sr: "same_references r r2"
          unfolding same_references_def r0[symmetric] by (subst upd(3), simp)+
        from True fr have "Review_findById ?d' i = Some r2" by simp
        with ReportReview sr upd r0 ri True show ?thesis by simp
      next
        case False
        with fr f have "Review_findById ?d' i = Some r" by simp
        with ReportReview same show ?thesis by simp
      qed
    qed
  next
    case (MarkReviewAsHelpful u j)
    let ?d' = "snd (markReviewAsHelpful e d u j)"
    from markReviewAsHelpful_reviews[of e d u j]
    consider (same) "reviews ?d' = reviews d"
      | (upd) r0 r2 where "Review_findById d j = Some r0"
          "r2 = r0\<lparr>helpfulVotes := toggled (user_id u) (helpfulVotes r0)\<rparr>"
          "reviews ?d' = replace_first r2 (reviews d)"
      by blast
    then show ?thesis
    proof cases
      case same
      from frame_unchanged[OF same, of i] f MarkReviewAsHelpful \<open>same_references r r\<close>
      show ?thesis by simp
    next
      case upd
      have rr: "rid r2 = rid r0" by (subst upd(2)) simp
      note fr = frame_replace[OF upd(3) upd(1) rr, of i]
      show ?thesis
      proof (cases "i = j")
        case True
        with upd(1) f have r0: "r0 = r" by simp
        have sr: "same_references r r2"
          unfolding same_references_def r0[symmetric] by (subst upd(2), simp)+
        from True fr have "Review_findById ?d' i = Some r2" by simp
        with MarkReviewAsHelpful sr upd r0 ri True show ?thesis by simp
      next
        case False
        with fr f have "Review_findById ?d' i = Some r" by simp
        with MarkReviewAsHelpful same show ?thesis by simp
      qed
    qed
  next
    case (HandleReportedReview u j action adminNotes)
    from f have "Review_findById (snd (handleReportedReview e d u j action adminNotes)) i = Some r"
      by (simp only: handleReportedReview_store)
    with HandleReportedReview same show ?thesis by simp
  qed
qed

lemma ex_own_update:
  "updateReview ex_env ex_db1 0 ex_client 100 ex_update =
     (SuccessResponse 200 ''Review updated successfully'' (ReviewData (ex_review\<lparr>rating := 1\<rparr>)),
      ex_db1\<lparr>reviews := [ex_review\<lparr>rating := 1\<rparr>],
        notifications := notifications ex_db1
          @ [review_updated_notification ex_client (ex_review\<lparr>rating := 1\<rparr>)]\<rparr>)"
  by code_simp

theorem review_frame_witness:
  "distinct (map rid (reviews ex_db1)) \<and> Review_findById ex_db1 100 = Some ex_review
   \<and> Review_findById (snd (perform ex_env ex_db1 (UpdateReview 0 ex_client 100 ex_update))) 100
       = Some (ex_review\<lparr>rating := 1\<rparr>)
   \<and> same_references ex_review (ex_review\<lparr>rating := 1\<rparr>)
   \<and> may_change (UpdateReview 0 ex_client 100 ex_update) ex_review (ex_review\<lparr>rating := 1\<rparr>)
   \<and> Review_findById (snd (perform ex_env ex_db1 (DeleteReview ex_admin 100))) 100 = None
   \<and> may_delete (DeleteReview ex_admin 100) ex_review
   \<and> perform ex_env ex_db1 (DeleteReview ex_freelancer 100) =
       (ErrorResponse 403 ''You can only delete your own reviews'', ex_db1)"
proof -
  have ids: "distinct (map rid (reviews ex_db1))" by code_simp
  have f: "Review_findById ex_db1 100 = Some ex_review" by code_simp
  have u: "Review_findById (snd (perform ex_env ex_db1 (UpdateReview 0 ex_client 100 ex_update)))
       100 = Some (ex_review\<lparr>rating := 1\<rparr>)"
    by code_simp
  have dl: "Review_findById (snd (perform ex_env ex_db1 (DeleteReview ex_admin 100))) 100 = None"
    by code_simp
  have no: "perform ex_env ex_db1 (DeleteReview ex_freelancer 100) =
       (ErrorResponse 403 ''You can only delete your own reviews'', ex_db1)"
    by code_simp
  have ne: "ex_review\<lparr>rating := 1\<rparr> \<noteq> ex_review"
    by (simp add: ex_review_def)
  from review_frame[OF ids f, where e = ex_env and op = "UpdateReview 0 ex_client 100 ex_update"] u ne
  have c1: "same_references ex_review (ex_review\<lparr>rating := 1\<rparr>)
      \<and> may_change (UpdateReview 0 ex_client 100 ex_update) ex_review (ex_review\<lparr>rating := 1\<rparr>)"
    by (simp only: option.case) blast
  from review_frame[OF ids f, where e = ex_env and op = "DeleteReview ex_admin 100"] dl
  have c2: "may_delete (DeleteReview ex_admin 100) ex_review"
    by (simp only: option.case)
  from ids f u c1 dl c2 no show ?thesis by blast
qed

text \<open>
  C8 as the spec states it fails: \<open>updateReview\<close> is no report or moderation flow, and the
  author's update of the scenario's review changes its stored rating from 5 to 1.
\<close>

theorem updateReview_changes_rating_counterexample:
  "Review_findById ex_db1 100 = Some ex_review \<and> rating ex_review = 5
   \<and> fst (updateReview ex_env ex_db1 0 ex_client 100 ex_update) =
       SuccessResponse 200 ''Review updated successfully'' (ReviewData (ex_review\<lparr>rating := 1\<rparr>))
   \<and> Review_findById (snd (updateReview ex_env ex_db1 0 ex_client 100 ex_update)) 100 =
       Some (ex_review\<lparr>rating := 1\<rparr>)
   \<and> rating (ex_review\<lparr>rating := 1\<rparr>) = 1"
  by code_simp

section \<open>The invariant of the store\<close>

lemma map_replace_first:
  "find (\<lambda>x. rid x = j) xs = Some r0 \<Longrightarrow> rid r2 = j \<Longrightarrow> f r2 = f r0 \<Longrightarrow>
   map f (replace_first r2 xs) = map f xs"
  by (induction xs) (auto split: if_splits)

lemma set_replace_first: "set (replace_first r2 xs) \<subseteq> insert r2 (set xs)"
  by (induction xs) auto

lemma set_delete_first: "set (delete_first j xs) \<subseteq> set xs"
  by (induction xs) auto

lemma distinct_map_delete_first:
  "distinct (map f xs) \<Longrightarrow> distinct (map f (delete_first j xs))"
proof (induction xs)
  case Nil
  show ?case by simp
next
  case (Cons x xs)
  have "f x \<notin> f ` set (delete_first j xs)" if "f x \<notin> f ` set xs"
    using that set_delete_first[of j xs] by blast
  with Cons show ?case by auto
qed

lemma inv_unchanged:
  "db_invariant d \<Longrightarrow> reviews d' = reviews d \<Longrightarrow> next_oid d' = next_oid d \<Longrightarrow>
   db_invariant d'"
  by (simp add: db_invariant_def unique_index_def)

lemma inv_insert:
  assumes "db_invariant d" and "reviews d' = reviews d @ [r]"
    and "next_oid d' = Suc (next_oid d)" and "rid r = next_oid d" and "Review_validate r"
    and "helpfulVotes r = []"
    and "\<not> list_ex (same_triple (job r) (reviewer r) (recipient r)) (reviews d)"
  shows "db_invariant d'"
proof -
  from assms(1) have a: "distinct (map rid (reviews d))"
    "distinct (map (\<lambda>r. (job r, reviewer r, recipient r)) (reviews d))"
    "\<forall>x \<in> set (reviews d). rid x < next_oid d \<and> Review_validate x
        \<and> distinct (helpfulVotes x)"
    by (simp_all add: db_invariant_def unique_index_def list_all_iff)
  from a(3) assms(4) have fresh: "rid r \<notin> rid ` set (reviews d)" by auto
  from assms(7) have nt: "(job r, reviewer r, recipient r)
      \<notin> (\<lambda>r. (job r, reviewer r, recipient r)) ` set (reviews d)"
    by (auto simp: list_ex_iff same_triple_def)
  from a fresh nt assms show ?thesis
    by (auto simp: db_invariant_def unique_index_def list_all_iff)
qed

lemma inv_replace:
  assumes inv: "db_invariant d" and f: "Review_findById d j = Some r0"
    and rv: "reviews d' = replace_first r2 (reviews d)" and no: "next_oid d' = next_oid d"
    and same: "rid r2 = rid r0" "job r2 = job r0" "reviewer r2 = reviewer r0"
      "recipient r2 = recipient r0"
    and ok: "Review_validate r2" "distinct (helpfulVotes r2)"
  shows "db_invariant d'"
proof -
  from f have fj: "find (\<lambda>x. rid x = j) (reviews d) = Some r0"
    by (simp only: Review_findById_def)
  from f have rj: "rid r0 = j" by (rule found_rid)
  with same have r2j: "rid r2 = j" by simp
  from inv have a: "distinct (map rid (reviews d))"
    "distinct (map (\<lambda>r. (job r, reviewer r, recipient r)) (reviews d))"
    "\<forall>x \<in> set (reviews d). rid x < next_oid d \<and> Review_validate x
        \<and> distinct (helpfulVotes x)"
    by (simp_all add: db_invariant_def unique_index_def list_all_iff)
  have m1: "map rid (replace_first r2 (reviews d)) = map rid (reviews d)"
    by (rule map_replace_first[OF fj r2j]) (simp add: same)
  have m2: "map (\<lambda>r. (job r, reviewer r, recipient r)) (replace_first r2 (reviews d)) =
      map (\<lambda>r. (job r, reviewer r, recipient r)) (reviews d)"
    by (rule map_replace_first[OF fj r2j]) (simp add: same)
  from find_rid[OF fj] a(3) have "rid r0 < next_oid d" by blast
  with same have lt: "rid r2 < next_oid d" by simp
  have all: "\<forall>x \<in> set (replace_first r2 (reviews d)). rid x < next_oid d \<and> Review_validate x
        \<and> distinct (helpfulVotes x)"
    using set_replace_first[of r2 "reviews d"] a(3) lt ok by blast
  from a m1 m2 all show ?thesis
    by (simp add: db_invariant_def unique_index_def list_all_iff rv no)
qed

lemma inv_delete:
  assumes inv: "db_invariant d" and rv: "reviews d' = delete_first j (reviews d)"
    and no: "next_oid d' = next_oid d"
  shows "db_invariant d'"
proof -
  from inv have a: "distinct (map rid (reviews d))"
    "distinct (map (\<lambda>r. (job r, reviewer r, recipient r)) (reviews d))"
    "\<forall>x \<in> set (reviews d). rid x < next_oid d \<and> Review_validate x
        \<and> distinct (helpfulVotes x)"
    by (simp_all add: db_invariant_def unique_index_def list_all_iff)
  have all: "\<forall>x \<in> set (delete_first j (reviews d)). rid x < next_oid d \<and> Review_validate x
        \<and> distinct (helpfulVotes x)"
    using set_delete_first[of j "reviews d"] a(3) by blast
  from distinct_map_delete_first[OF a(1)] distinct_map_delete_first[OF a(2)] all
  show ?thesis
    by (simp add: db_invariant_def unique_index_def list_all_iff rv no)
qed

lemma distinct_toggled: "distinct vs \<Longrightarrow> distinct (toggled u vs)"
  by (simp add: toggled_def)

lemma inv_found:
  assumes "db_invariant d" and "Review_findById d j = Some r0"
  shows "Review_validate r0" "distinct (helpfulVotes r0)"
proof -
  from assms(2) have "r0 \<in> set (reviews d)"
    unfolding Review_findById_def by (rule find_rid[THEN conjunct2])
  with assms(1) show "Review_validate r0" "distinct (helpfulVotes r0)"
    by (simp_all add: db_invariant_def list_all_iff)
qed

text \<open>
  Every operation keeps the invariant; the empty store has it. So the hypotheses of
  the theorems above on a stored review (distinct ids, one review per triple, a review that
  passes validation, no voter twice) hold in every store the operations build.
\<close>

lemma perform_preserves_invariant:
  assumes inv: "db_invariant d"
  shows "db_invariant (snd (perform e d op))"
proof (cases op)
  case (CreateReview now u b)
  from createReview_reviews[of e d now u b] inv show ?thesis
    unfolding CreateReview perform.simps
    using inv_unchanged inv_insert by blast
next
  case (UpdateReview t u j b)
  let ?d' = "snd (updateReview e d t u j b)"
  from updateReview_reviews[of e d t u j b]
  have no: "next_oid ?d' = next_oid d" by blast
  from updateReview_reviews[of e d t u j b]
  consider (same) "reviews ?d' = reviews d"
    | (upd) r0 r2 where "Review_findById d j = Some r0" "Review_validate r2"
        "r2 = r0\<lparr>rating := rating r2, isPublic := isPublic r2\<rparr>"
        "reviews ?d' = replace_first r2 (reviews d)"
    by blast
  then have "db_invariant ?d'"
  proof cases
    case same
    from inv_unchanged[OF inv same no] show ?thesis .
  next
    case upd
    note fo = inv_found[OF inv upd(1)]
    have fr: "rid r2 = rid r0" "job r2 = job r0" "reviewer r2 = reviewer r0"
      "recipient r2 = recipient r0" "helpfulVotes r2 = helpfulVotes r0"
      by (subst upd(3), simp)+
    from inv_replace[OF inv upd(1) upd(4) no fr(1-4) upd(2)] fo fr show ?thesis by simp
  qed
  then show ?thesis by (simp add: UpdateReview)
next
  case (DeleteReview u j)
  let ?d' = "snd (deleteReview e d u j)"
  from deleteReview_reviews[of e d u j]
  have "next_oid ?d' = next_oid d"
    and "reviews ?d' = reviews d \<or> reviews ?d' = delete_first j (reviews d)"
    by blast+
  with inv inv_unchanged inv_delete have "db_invariant ?d'" by blast
  then show ?thesis by (simp add: DeleteReview)
next
  case (ReportReview now u j reason)
  let ?d' = "snd (reportReview e d now u j reason)"
  from reportReview_reviews[of e d now u j reason]
  have no: "next_oid ?d' = next_oid d" by blast
  from reportReview_reviews[of e d now u j reason]
  consider (same) "reviews ?d' = reviews d"
    | (upd) r0 r2 where "Review_findById d j = Some r0" "Review_validate r2"
        "r2 = r0\<lparr>isReported := isReported r2, reportReason := reportReason r2,
                     reportedBy := reportedBy r2, reportedAt := reportedAt r2\<rparr>"
        "reviews ?d' = replace_first r2 (reviews d)"
    by blast
  then have "db_invariant ?d'"
  proof cases
    case same
    from inv_unchanged[OF inv same no] show ?thesis .
  next
    case upd
    note fo = inv_found[OF inv upd(1)]
    have fr: "rid r2 = rid r0" "job r2 = job r0" "reviewer r2 = reviewer r0"
      "recipient r2 = recipient r0" "helpfulVotes r2 = helpfulVotes r0"
      by (subst upd(3), simp)+
    from inv_replace[OF inv upd(1) upd(4) no fr(1-4) upd(2)] fo fr show ?thesis by simp
  qed
  then show ?thesis by (simp add: ReportReview)
next
  case (MarkReviewAsHelpful u j)
  let ?d' = "snd (markReviewAsHelpful e d u j)"
  from markReviewAsHelpful_reviews[of e d u j]
  have no: "next_oid ?d' = next_oid d" by blast
  from markReviewAsHelpful_reviews[of e d u j]
  consider (same) "reviews ?d' = reviews d"
    | (upd) r0 r2 where "Review_findById d j = Some r0" "Review_validate r2"
        "r2 = r0\<lparr>helpfulVotes := toggled (user_id u) (helpfulVotes r0)\<rparr>"
        "reviews ?d' = replace_first r2 (reviews d)"
    by blast
  then have "db_invariant ?d'"
  proof cases
    case same
    from inv_unchanged[OF inv same no] show ?thesis .
  next
    case upd
    note fo = inv_found[OF inv upd(1)]
    have fr: "rid r2 = rid r0" "job r2 = job r0" "reviewer r2 = reviewer r0"
      "recipient r2 = recipient r0"
      "helpfulVotes r2 = toggled (user_id u) (helpfulVotes r0)"
      by (subst upd(3), simp)+
    from inv_replace[OF inv upd(1) upd(4) no fr(1-4) upd(2)] fo fr distinct_toggled
    show ?thesis by simp
  qed
  then show ?thesis by (simp add: MarkReviewAsHelpful)
next
  case (HandleReportedReview u j action adminNotes)
  from inv show ?thesis by (simp only: HandleReportedReview perform.simps handleReportedReview_store)
qed

lemma empty_store_invariant: "db_invariant \<lparr> reviews = [], notifications = ns, next_oid = n \<rparr>"
  by (simp add: db_invariant_def unique_index_def)

text \<open>
  \<open>handleReportedReview\<close> changes no store, whatever the action and whether or not the
  review was reported: no Review document has the path it reads.
\<close>

lemma handleReportedReview_changes_nothing:
  "reviews (snd (handleReportedReview e d u i action adminNotes)) = reviews d"
  by (simp only: handleReportedReview_store)

end
